theory Spec2Isabelle
  imports Complex_Main "HOL-Library.Sublist"
begin

section \<open>Python values\<close>

text \<open>
  The client of \<^verbatim>\<open>passbolt.py\<close> handles three kinds of values: what
  \<^verbatim>\<open>json.loads\<close> returns, what it puts into the \<^verbatim>\<open>json=\<close> argument of a
  request, and \<^verbatim>\<open>None\<close>. All of them are values of the type \<open>json\<close>;
  \<open>JNull\<close> is Python's \<^verbatim>\<open>None\<close>. A dict is the list of its items in insertion order,
  read through \<open>map_of\<close>. A float is represented by the rational number it denotes, which
  is what Python compares when a float meets an int (the infinities and NaN, equal to no
  int, are left out). A \<^verbatim>\<open>str\<close> is the list of its characters.
\<close>

datatype json =
    JNull
  | JBool bool
  | JInt int
  | JFloat rat
  | JStr string
  | JList "json list"
  | JObj "(string \<times> json) list"

text \<open>The exceptions the modelled code can raise.\<close>

datatype error =
    KeyError
  | TypeError
  | IndexError
  | AttributeError
  | JSONDecodeError
  | TransportError
  | GPGError
  | OSError

text \<open>\<^verbatim>\<open>v[k]\<close> for a string key \<open>k\<close>.\<close>

fun subscript :: "json \<Rightarrow> string \<Rightarrow> error + json" where
  "subscript (JObj kvs) k = (case map_of kvs k of None \<Rightarrow> Inl KeyError | Some v \<Rightarrow> Inr v)"
| "subscript _ k = Inl TypeError"

text \<open>\<^verbatim>\<open>v[0]\<close>. The keys of a dict built from JSON are strings, so \<open>0\<close> is never one.\<close>

fun subscript0 :: "json \<Rightarrow> error + json" where
  "subscript0 (JList []) = Inl IndexError"
| "subscript0 (JList (x # xs)) = Inr x"
| "subscript0 (JStr []) = Inl IndexError"
| "subscript0 (JStr (c # cs)) = Inr (JStr [c])"
| "subscript0 (JObj kvs) = Inl KeyError"
| "subscript0 _ = Inl TypeError"

text \<open>\<^verbatim>\<open>v.get(k)\<close>: only a dict has the method.\<close>

fun dict_get :: "json \<Rightarrow> string \<Rightarrow> error + json" where
  "dict_get (JObj kvs) k = Inr (case map_of kvs k of None \<Rightarrow> JNull | Some v \<Rightarrow> v)"
| "dict_get _ k = Inl AttributeError"

text \<open>
  The elements a \<^verbatim>\<open>for x in v\<close> loop visits: the elements of a list, the keys of a
  dict, the characters of a string; other values are not iterable.
\<close>

fun iterate :: "json \<Rightarrow> error + json list" where
  "iterate (JList xs) = Inr xs"
| "iterate (JObj kvs) = Inr (map (\<lambda>kv. JStr (fst kv)) kvs)"
| "iterate (JStr cs) = Inr (map (\<lambda>c. JStr [c]) cs)"
| "iterate _ = Inl TypeError"

text \<open>\<^verbatim>\<open>v == n\<close> for an int \<open>n\<close>, and \<^verbatim>\<open>v == s\<close> for a str \<open>s\<close>.\<close>

fun eq_int :: "json \<Rightarrow> int \<Rightarrow> bool" where
  "eq_int (JInt m) n = (m = n)"
| "eq_int (JFloat q) n = (q = of_int n)"
| "eq_int (JBool b) n = ((if b then 1 else 0) = n)"
| "eq_int _ n = False"

fun eq_str :: "json \<Rightarrow> string \<Rightarrow> bool" where
  "eq_str (JStr t) s = (t = s)"
| "eq_str _ s = False"

text \<open>The truth value of \<^verbatim>\<open>if v:\<close>.\<close>

fun truthy :: "json \<Rightarrow> bool" where
  "truthy JNull = False"
| "truthy (JBool b) = b"
| "truthy (JInt n) = (n \<noteq> 0)"
| "truthy (JFloat q) = (q \<noteq> 0)"
| "truthy (JStr s) = (s \<noteq> [])"
| "truthy (JList xs) = (xs \<noteq> [])"
| "truthy (JObj kvs) = (kvs \<noteq> [])"

section \<open>The HTTP transport, the PGP engine and the console\<close>

text \<open>
  A request of the \<^verbatim>\<open>httpx\<close> session: the method, the URL and the \<^verbatim>\<open>json=\<close> body
  (\<open>None\<close> for a GET).
\<close>

datatype http_method = GET | POST | PUT

record request =
  req_method :: http_method
  req_url :: string
  req_json :: "json option"

text \<open>
  A response: \<^verbatim>\<open>status_code\<close>, \<^verbatim>\<open>headers\<close> (names in lower case, read with
  \<^verbatim>\<open>.get\<close>) and \<^verbatim>\<open>text\<close>. The code reads the text only through
  \<^verbatim>\<open>json.loads\<close>, so the text is represented by the value it parses to, or by
  \<open>NotJson\<close> when it is not a JSON document.
\<close>

datatype body_text = NotJson | Json json

record response =
  status_code :: int
  headers :: "(string \<times> string) list"
  resp_text :: body_text

fun json_loads :: "body_text \<Rightarrow> error + json" where
  "json_loads NotJson = Inl JSONDecodeError"
| "json_loads (Json j) = Inr j"

definition headers_get :: "response \<Rightarrow> string \<Rightarrow> string option" where
  "headers_get r name = map_of (headers r) name"

text \<open>What \<^verbatim>\<open>print\<close> and \<^verbatim>\<open>pprint\<close> write to the console.\<close>

datatype printed =
    Pprint json
  | PrintStr string
  | PrintResponse response
  | PrintHeaders "(string \<times> string) list"
  | PrintText body_text
  | PrintBlank

text \<open>
  The result object of \<^verbatim>\<open>gpg.decrypt\<close> and \<^verbatim>\<open>gpg.encrypt\<close>: its \<^verbatim>\<open>ok\<close> flag and
  the text \<^verbatim>\<open>str()\<close> gives.
\<close>

record crypt =
  crypt_ok :: bool
  crypt_data :: string

text \<open>
  The library functions the client calls are parameters of the model. PGP encryption is
  not a function of its arguments (it draws a fresh session key) and the keyring changes
  with every import, so each engine operation also receives the number of engine calls
  made before it: any behaviour of the engine over a run is some such family of results.
  An engine call may raise.
\<close>

record env =
  unquote :: "string \<Rightarrow> string"
  gpg_decrypt :: "nat \<Rightarrow> json \<Rightarrow> json \<Rightarrow> error + crypt"
  gpg_import_keys :: "nat \<Rightarrow> json \<Rightarrow> error + unit"
  gpg_encrypt :: "nat \<Rightarrow> string \<Rightarrow> json \<Rightarrow> error + crypt"

section \<open>The client object and the world around it\<close>

text \<open>
  The attributes \<^verbatim>\<open>__init__\<close> gives a \<^verbatim>\<open>PassboltAPI\<close> object.
  \<open>session_headers\<close> is \<^verbatim>\<open>self.session.headers\<close>.
\<close>

record passbolt =
  config :: json
  FINGERPRINT :: string
  base_url :: string
  login_url :: string
  users_url :: string
  me_url :: string
  groups_url :: string
  authenticated :: bool
  token :: json
  USER_ID :: json
  pgp_message :: json
  nonce :: "crypt option"
  session_headers :: "(string \<times> string) list"
  cookies :: "(string \<times> string) list"

text \<open>
  The world: the responses the server will give, in the order of the requests
  (\<open>pending\<close>), the requests sent so far, the console, and the number of calls made to
  the PGP engine. A request with no response left fails in the transport.

  The cookies of the session are not an attribute the class assigns: the
  \<^verbatim>\<open>httpx.Client\<close> in \<^verbatim>\<open>self.session\<close> holds them and brings them up to date with
  every response it receives, which is how the login reaches the later requests.
  \<open>jar\<close> is that store, one text for each cookie held. What the client library makes of
  the store and a response is its own business and a parameter of the model,
  \<open>store_cookies\<close>. The attribute \<^verbatim>\<open>self.cookies\<close> is another object, which the class
  creates and never uses.
\<close>

record world =
  pending :: "response list"
  sent :: "request list"
  console :: "printed list"
  gpg_calls :: nat
  jar :: "string list"
  store_cookies :: "string list \<Rightarrow> response \<Rightarrow> string list"

record state =
  self :: passbolt
  world :: world

text \<open>
  A method is a function from the state to a result and the state it leaves. An
  exception (\<open>Inl\<close>) keeps the changes made before it was raised.
\<close>

type_synonym 'a io = "state \<Rightarrow> (error + 'a) \<times> state"

definition io_return :: "'a \<Rightarrow> 'a io" where
  "io_return x s = (Inr x, s)"

definition io_lift :: "error + 'a \<Rightarrow> 'a io" where
  "io_lift r s = (r, s)"

definition io_bind :: "'a io \<Rightarrow> ('a \<Rightarrow> 'b io) \<Rightarrow> 'b io" where
  "io_bind m f s = (case m s of (Inl e, s') \<Rightarrow> (Inl e, s') | (Inr x, s') \<Rightarrow> f x s')"

definition send :: "request \<Rightarrow> response io" where
  "send rq s =
     (case pending (world s) of
        [] \<Rightarrow> (Inl TransportError, s\<lparr>world := (world s)\<lparr>sent := sent (world s) @ [rq]\<rparr>\<rparr>)
      | r # rs \<Rightarrow>
          (Inr r, s\<lparr>world := (world s)\<lparr>pending := rs, sent := sent (world s) @ [rq],
                     jar := store_cookies (world s) (jar (world s)) r\<rparr>\<rparr>))"

definition emit :: "printed \<Rightarrow> unit io" where
  "emit out s = (Inr (), s\<lparr>world := (world s)\<lparr>console := console (world s) @ [out]\<rparr>\<rparr>)"

definition gpg_call :: "(nat \<Rightarrow> error + 'a) \<Rightarrow> 'a io" where
  "gpg_call f s =
     (f (gpg_calls (world s)), s\<lparr>world := (world s)\<lparr>gpg_calls := Suc (gpg_calls (world s))\<rparr>\<rparr>)"

definition assign :: "(passbolt \<Rightarrow> passbolt) \<Rightarrow> unit io" where
  "assign f s = (Inr (), s\<lparr>self := f (self s)\<rparr>)"

section \<open>Strings\<close>

text \<open>
  \<^verbatim>\<open>s.replace(old, new)\<close>: the occurrences of \<open>old\<close> are found from the left and do
  not overlap; an empty \<open>old\<close> matches before every character and at the end.
\<close>

function str_replace :: "string \<Rightarrow> string \<Rightarrow> string \<Rightarrow> string" where
  "str_replace old new [] = (if old = [] then new else [])"
| "str_replace old new (c # cs) =
     (if old = [] then new @ c # str_replace old new cs
      else if prefix old (c # cs) then new @ str_replace old new (drop (length old) (c # cs))
      else c # str_replace old new cs)"
  by pat_completeness auto
termination
  by (relation "measure (\<lambda>(old, new, s). length s)") (auto simp: neq_Nil_conv)

text \<open>\<^verbatim>\<open>xs[i:j]\<close>: a negative index counts from the end, and both are clipped.\<close>

definition slice :: "'a list \<Rightarrow> int \<Rightarrow> int \<Rightarrow> 'a list" where
  "slice xs i j =
     (let n = int (length xs);
          a = (if i < 0 then max (n + i) 0 else min i n);
          b = (if j < 0 then max (n + j) 0 else min j n)
      in take (nat (b - a)) (drop (nat a) xs))"

section \<open>The authentication handshake\<close>

text \<open>
  \<open>stage1\<close> posts the fingerprint and reads the envelope code. With the code 200 it
  returns the challenge header, passed through \<^verbatim>\<open>unquote\<close> and then through
  \<^verbatim>\<open>replace\<close>, whose pattern is the two characters backslash and plus and whose
  replacement is a space; \<^verbatim>\<open>unquote(None)\<close> raises when the header is absent. With
  any other code it pretty-prints the envelope and returns \<^verbatim>\<open>None\<close>.
\<close>

definition stage1 :: "env \<Rightarrow> json io" where
  "stage1 E s =
     (let post = JObj [(''data'', JObj [(''gpg_auth'', JObj [(''keyid'', JStr (FINGERPRINT (self s)))])])]
      in io_bind (send \<lparr>req_method = POST, req_url = login_url (self s), req_json = Some post\<rparr>)
          (\<lambda>response.
         io_bind (io_lift (json_loads (resp_text response))) (\<lambda>decoded_response.
         io_bind (io_lift (subscript decoded_response ''header'')) (\<lambda>header.
         io_bind (io_lift (subscript header ''code'')) (\<lambda>code.
           if eq_int code 200 then
             (case headers_get response ''x-gpgauth-user-auth-token'' of
                None \<Rightarrow> io_lift (Inl TypeError)
              | Some h \<Rightarrow>
                  io_return (JStr (str_replace [CHR 0x5C, CHR ''+''] '' '' (unquote E h))))
           else io_bind (emit (Pprint decoded_response)) (\<lambda>_. io_return JNull))))) s)"

text \<open>
  \<open>decrypt\<close> and \<open>encrypt\<close> hand their arguments to the engine; \<open>encrypt\<close> imports
  the recipient's key first. The result object is returned as it is, whether or not the
  engine succeeded.
\<close>

definition decrypt :: "env \<Rightarrow> json \<Rightarrow> crypt io" where
  "decrypt E message s =
     io_bind (io_lift (dict_get (config (self s)) ''passphrase'')) (\<lambda>passphrase.
       gpg_call (\<lambda>n. gpg_decrypt E n message passphrase)) s"

definition encrypt :: "env \<Rightarrow> string \<Rightarrow> json \<Rightarrow> crypt io" where
  "encrypt E message public_key =
     io_bind (io_lift (subscript public_key ''armored_key'')) (\<lambda>armored_key.
     io_bind (gpg_call (\<lambda>n. gpg_import_keys E n armored_key)) (\<lambda>_.
     io_bind (io_lift (subscript public_key ''fingerprint'')) (\<lambda>fingerprint.
       gpg_call (\<lambda>n. gpg_encrypt E n message fingerprint))))"

text \<open>
  \<open>stage2\<close> posts the fingerprint and the text of the decrypted challenge, and returns
  whether the envelope code is 200.
\<close>

definition stage2 :: "string \<Rightarrow> bool io" where
  "stage2 nonce_text s =
     (let post = JObj [(''data'', JObj [(''gpg_auth'',
                   JObj [(''keyid'', JStr (FINGERPRINT (self s))),
                         (''user_token_result'', JStr nonce_text)])])]
      in io_bind (send \<lparr>req_method = POST, req_url = login_url (self s), req_json = Some post\<rparr>)
          (\<lambda>response.
         io_bind (io_lift (json_loads (resp_text response))) (\<lambda>decoded_response.
         io_bind (io_lift (subscript decoded_response ''header'')) (\<lambda>header.
         io_bind (io_lift (subscript header ''code'')) (\<lambda>code.
           if eq_int code 200 then io_return True else io_return False)))) s)"

text \<open>
  \<open>get_cookie\<close> asks who the client is. It reads the \<^verbatim>\<open>set-cookie\<close> header, stores
  \<^verbatim>\<open>body.id\<close> of the answer, and then cuts the token out of the header with
  \<^verbatim>\<open>token[10:-8]\<close>, which raises when the header is absent.
\<close>

definition get_cookie :: "unit io" where
  "get_cookie s =
     io_bind (send \<lparr>req_method = GET, req_url = me_url (self s), req_json = None\<rparr>)
       (\<lambda>response.
       let token = headers_get response ''set-cookie'' in
       io_bind (io_lift (json_loads (resp_text response))) (\<lambda>user_id.
       io_bind (io_lift (subscript user_id ''body'')) (\<lambda>body.
       io_bind (io_lift (subscript body ''id'')) (\<lambda>uid.
       io_bind (assign (\<lambda>me. me\<lparr>USER_ID := uid\<rparr>)) (\<lambda>_.
         case token of
           None \<Rightarrow> io_lift (Inl TypeError)
         | Some t \<Rightarrow>
             io_bind (assign (\<lambda>me. me\<lparr>token := JStr (slice t 10 (- 8))\<rparr>)) (\<lambda>_.
               assign (\<lambda>me. me\<lparr>session_headers := [(''X-CSRF-Token'', slice t 10 (- 8))]\<rparr>))))))) s"

definition check_login :: "unit io" where
  "check_login s =
     io_bind (send \<lparr>req_method = GET, req_url = base_url (self s) @ ''/'', req_json = None\<rparr>)
       (\<lambda>response.
         if status_code response \<noteq> 200
         then io_bind (emit (PrintStr ''Falha no login'')) (\<lambda>_. emit (PrintResponse response))
         else io_return ()) s"

text \<open>
  \<open>login\<close> runs the five steps one after the other, with no test between them. The
  attributes \<^verbatim>\<open>pgp_message\<close> and \<^verbatim>\<open>nonce\<close> are read back right after they are
  assigned, and \<^verbatim>\<open>str(self.nonce)\<close> is the text of the result object.
\<close>

definition login :: "env \<Rightarrow> unit io" where
  "login E =
     io_bind (stage1 E) (\<lambda>m.
     io_bind (assign (\<lambda>me. me\<lparr>pgp_message := m\<rparr>)) (\<lambda>_.
     io_bind (decrypt E m) (\<lambda>n.
     io_bind (assign (\<lambda>me. me\<lparr>nonce := Some n\<rparr>)) (\<lambda>_.
     io_bind (stage2 (crypt_data n)) (\<lambda>a.
     io_bind (assign (\<lambda>me. me\<lparr>authenticated := a\<rparr>)) (\<lambda>_.
     io_bind get_cookie (\<lambda>_.
       check_login)))))))"

section \<open>Configuration\<close>

text \<open>
  \<open>load_config\<close> reads the file system and the process environment. \<open>files\<close> gives,
  for \<^verbatim>\<open>Path(config_filepath, config_filename)\<close>, \<open>None\<close> when \<^verbatim>\<open>is_file()\<close> is
  false, and otherwise what \<^verbatim>\<open>open\<close> followed by \<^verbatim>\<open>json.load\<close> yields there: the
  parsed document, or the exception they raise. \<open>environ\<close> is \<^verbatim>\<open>os.environ\<close>.
\<close>

definition environ_get :: "(string \<rightharpoonup> string) \<Rightarrow> string \<Rightarrow> string \<Rightarrow> string" where
  "environ_get environ name fallback = (case environ name of None \<Rightarrow> fallback | Some v \<Rightarrow> v)"

definition load_config ::
  "(string \<times> string \<Rightarrow> (error + json) option) \<Rightarrow> (string \<rightharpoonup> string) \<Rightarrow>
   string \<Rightarrow> string \<Rightarrow> json \<Rightarrow> unit io" where
  "load_config files environ config_filename config_filepath dict_config =
     (if truthy dict_config then assign (\<lambda>me. me\<lparr>config := dict_config\<rparr>)
      else case files (config_filepath, config_filename) of
        Some contents \<Rightarrow>
          io_bind (io_lift contents) (\<lambda>loaded. assign (\<lambda>me. me\<lparr>config := loaded\<rparr>))
      | None \<Rightarrow>
          assign (\<lambda>me. me\<lparr>config := JObj
            [(''gpgbinary'', JStr (environ_get environ ''PASSBOLT_GPGBINARY'' ''gpg'')),
             (''base_url'', JStr (environ_get environ ''PASSBOLT_BASEURL'' ''https://undefined'')),
             (''private_key'', JStr (environ_get environ ''PASSBOLT_PRIVATE_KEY'' ''undefined'')),
             (''passphrase'', JStr (environ_get environ ''PASSBOLT_PASSPHRASE'' ''gpg''))]\<rparr>))"

section \<open>Users and groups\<close>

definition get_users :: "json io" where
  "get_users s =
     io_bind (send \<lparr>req_method = GET, req_url = users_url (self s), req_json = None\<rparr>)
       (\<lambda>response.
       io_bind (io_lift (json_loads (resp_text response))) (\<lambda>decoded_response.
         io_lift (subscript decoded_response ''body''))) s"

definition get_groups :: "json io" where
  "get_groups s =
     io_bind (send \<lparr>req_method = GET, req_url = groups_url (self s), req_json = None\<rparr>)
       (\<lambda>response.
       io_bind (io_lift (json_loads (resp_text response))) (\<lambda>decoded_response.
         io_lift (subscript decoded_response ''body''))) s"

text \<open>
  The loop the four lookups share,
  \<^verbatim>\<open>for x in xs: if x[key] == wanted: return x\<close>, which falls through to
  \<^verbatim>\<open>None\<close>.
\<close>

fun first_with :: "string \<Rightarrow> string \<Rightarrow> json list \<Rightarrow> error + json" where
  "first_with key wanted [] = Inr JNull"
| "first_with key wanted (x # xs) =
     (case subscript x key of
        Inl e \<Rightarrow> Inl e
      | Inr field \<Rightarrow> if eq_str field wanted then Inr x else first_with key wanted xs)"

definition get_user_by_email :: "string \<Rightarrow> json io" where
  "get_user_by_email email =
     io_bind get_users (\<lambda>users.
     io_bind (io_lift (iterate users)) (\<lambda>xs.
       io_lift (first_with ''username'' email xs)))"

definition get_user_by_id :: "string \<Rightarrow> json io" where
  "get_user_by_id ident =
     io_bind get_users (\<lambda>users.
     io_bind (io_lift (iterate users)) (\<lambda>xs.
       io_lift (first_with ''id'' ident xs)))"

definition get_group_by_name :: "string \<Rightarrow> json io" where
  "get_group_by_name group_name =
     io_bind get_groups (\<lambda>groups.
     io_bind (io_lift (iterate groups)) (\<lambda>xs.
       io_lift (first_with ''name'' group_name xs)))"

definition get_group_by_id :: "string \<Rightarrow> json io" where
  "get_group_by_id group_id =
     io_bind get_groups (\<lambda>groups.
     io_bind (io_lift (iterate groups)) (\<lambda>xs.
       io_lift (first_with ''id'' group_id xs)))"

text \<open>The loop of \<open>get_group_user_id\<close>, which returns the \<^verbatim>\<open>id\<close> of the match.\<close>

fun membership_id :: "string \<Rightarrow> json list \<Rightarrow> error + json" where
  "membership_id group_id [] = Inr JNull"
| "membership_id group_id (grp # rest) =
     (case subscript grp ''group_id'' of
        Inl e \<Rightarrow> Inl e
      | Inr g \<Rightarrow> if eq_str g group_id then subscript grp ''id''
                 else membership_id group_id rest)"

definition get_group_user_id :: "string \<Rightarrow> string \<Rightarrow> json io" where
  "get_group_user_id group_id user_id =
     io_bind (get_user_by_id user_id) (\<lambda>user.
     io_bind (io_lift (subscript user ''groups_users'')) (\<lambda>groups_users.
     io_bind (io_lift (iterate groups_users)) (\<lambda>xs.
       io_lift (membership_id group_id xs))))"

definition get_user_public_key :: "string \<Rightarrow> json io" where
  "get_user_public_key user_id s =
     io_bind (send \<lparr>req_method = GET,
                     req_url = base_url (self s) @ ''/users/'' @ user_id @ ''.json'',
                     req_json = None\<rparr>)
       (\<lambda>response.
       io_bind (io_lift (json_loads (resp_text response))) (\<lambda>decoded_response.
       io_bind (io_lift (subscript decoded_response ''body'')) (\<lambda>user.
         io_lift (subscript user ''gpgkey'')))) s"

section \<open>Group creation\<close>

text \<open>The group name goes into the body as it is, whatever value it is.\<close>

definition create_group :: "json \<Rightarrow> response io" where
  "create_group group_name s =
     (let post = JObj [(''name'', group_name),
                       (''groups_users'',
                        JList [JObj [(''user_id'', USER_ID (self s)), (''is_admin'', JBool True)]])]
      in send \<lparr>req_method = POST, req_url = groups_url (self s), req_json = Some post\<rparr> s)"

section \<open>Group membership\<close>

text \<open>The body of the loop over the secrets of the dry run: one entry of the new list.\<close>

definition reencrypt_secret :: "env \<Rightarrow> string \<Rightarrow> json \<Rightarrow> json \<Rightarrow> json io" where
  "reencrypt_secret E user_id user_key secret =
     io_bind (io_lift (subscript secret ''Secret'')) (\<lambda>held.
     io_bind (io_lift (subscript0 held)) (\<lambda>first.
     io_bind (io_lift (subscript first ''data'')) (\<lambda>data.
     io_bind (decrypt E data) (\<lambda>decrypted.
     io_bind (encrypt E (crypt_data decrypted) user_key) (\<lambda>reencrypted.
     io_bind (io_lift (subscript secret ''Secret'')) (\<lambda>held'.
     io_bind (io_lift (subscript0 held')) (\<lambda>first'.
     io_bind (io_lift (subscript first' ''resource_id'')) (\<lambda>resource_id.
       io_return (JObj [(''resource_id'', resource_id),
                        (''user_id'', JStr user_id),
                        (''data'', JStr (crypt_data reencrypted))])))))))))"

fun reencrypt_loop :: "env \<Rightarrow> string \<Rightarrow> json \<Rightarrow> json list \<Rightarrow> json list \<Rightarrow> json list io" where
  "reencrypt_loop E user_id user_key [] secrets_list s = (Inr secrets_list, s)"
| "reencrypt_loop E user_id user_key (secret # rest) secrets_list s =
     (case reencrypt_secret E user_id user_key secret s of
        (Inl e, s') \<Rightarrow> (Inl e, s')
      | (Inr entry, s') \<Rightarrow> reencrypt_loop E user_id user_key rest (secrets_list @ [entry]) s')"

text \<open>
  Ids are strings: they are formatted into the URL and sent in the body. After a dry run
  with status 200 the user's key is fetched first, then the secrets are read from the
  dry-run response.
\<close>

definition put_user_on_group :: "env \<Rightarrow> string \<Rightarrow> string \<Rightarrow> bool \<Rightarrow> response io" where
  "put_user_on_group E group_id user_id admin s =
     (let post = JObj [(''id'', JStr group_id),
                       (''groups_users'',
                        JList [JObj [(''user_id'', JStr user_id), (''is_admin'', JBool admin)]])];
          url = base_url (self s) @ ''/groups/'' @ group_id @ ''/dry-run.json''
      in io_bind (send \<lparr>req_method = PUT, req_url = url, req_json = Some post\<rparr>) (\<lambda>response.
           if status_code response = 200 then
             io_bind (get_user_public_key user_id) (\<lambda>user_key.
             io_bind (io_lift (json_loads (resp_text response))) (\<lambda>decoded_response.
             io_bind (io_lift (subscript decoded_response ''body'')) (\<lambda>body.
             io_bind (io_lift (subscript body ''dry-run'')) (\<lambda>dry_run.
             io_bind (io_lift (subscript dry_run ''Secrets'')) (\<lambda>secrets.
             io_bind (io_lift (iterate secrets)) (\<lambda>xs.
             io_bind (reencrypt_loop E user_id user_key xs []) (\<lambda>secrets_list.
               (\<lambda>s'. send \<lparr>req_method = PUT,
                             req_url = base_url (self s') @ ''/groups/'' @ group_id @ ''.json'',
                             req_json = Some (JObj
                               [(''id'', JStr group_id),
                                (''groups_users'',
                                 JList [JObj [(''user_id'', JStr user_id),
                                              (''is_admin'', JBool admin)]]),
                                (''secrets'', JList secrets_list)])\<rparr> s'))))))))
           else
             io_bind (emit (PrintHeaders (headers response))) (\<lambda>_.
             io_bind (emit PrintBlank) (\<lambda>_.
             io_bind (emit (PrintText (resp_text response))) (\<lambda>_.
             io_bind (emit PrintBlank) (\<lambda>_.
               io_return response))))) s)"

definition update_user_to_group_admin :: "string \<Rightarrow> string \<Rightarrow> response io" where
  "update_user_to_group_admin group_id user_id =
     io_bind (get_group_user_id group_id user_id) (\<lambda>group_user_id s.
       (let post = JObj [(''id'', JStr group_id),
                         (''groups_users'',
                          JList [JObj [(''id'', group_user_id), (''is_admin'', JBool True)]])];
            url = base_url (self s) @ ''/groups/'' @ group_id @ ''/dry-run.json''
        in io_bind (send \<lparr>req_method = PUT, req_url = url, req_json = Some post\<rparr>) (\<lambda>response.
             if status_code response = 200 then
               (\<lambda>s'. send \<lparr>req_method = PUT,
                             req_url = base_url (self s') @ ''/groups/'' @ group_id @ ''.json'',
                             req_json = Some post\<rparr> s')
             else
               io_bind (emit (PrintHeaders (headers response))) (\<lambda>_.
               io_bind (emit PrintBlank) (\<lambda>_.
               io_bind (emit (PrintText (resp_text response))) (\<lambda>_.
               io_bind (emit PrintBlank) (\<lambda>_.
                 io_return response))))) s))"

section \<open>Reading responses\<close>

text \<open>
  What both stages read from a response,
  \<^verbatim>\<open>json.loads(response.text)["header"]["code"]\<close>, and the test they make of it.
\<close>

definition envelope_code :: "response \<Rightarrow> error + json" where
  "envelope_code r =
     (case json_loads (resp_text r) of
        Inl e \<Rightarrow> Inl e
      | Inr decoded \<Rightarrow>
          (case subscript decoded ''header'' of
             Inl e \<Rightarrow> Inl e
           | Inr header \<Rightarrow> subscript header ''code''))"

definition code_is_200 :: "response \<Rightarrow> bool" where
  "code_is_200 r = (case envelope_code r of Inl e \<Rightarrow> False | Inr code \<Rightarrow> eq_int code 200)"

text \<open>
  The key a user response carries, \<^verbatim>\<open>json.loads(response.text)["body"]["gpgkey"]\<close>,
  and the secrets a dry run lists,
  \<^verbatim>\<open>json.loads(response.text)["body"]["dry-run"]["Secrets"]\<close>, as the loop visits them.
\<close>

definition public_key_of :: "response \<Rightarrow> error + json" where
  "public_key_of r =
     (case json_loads (resp_text r) of
        Inl e \<Rightarrow> Inl e
      | Inr decoded \<Rightarrow>
          (case subscript decoded ''body'' of
             Inl e \<Rightarrow> Inl e
           | Inr user \<Rightarrow> subscript user ''gpgkey''))"

definition dry_run_secrets :: "response \<Rightarrow> error + json list" where
  "dry_run_secrets r =
     (case json_loads (resp_text r) of
        Inl e \<Rightarrow> Inl e
      | Inr decoded \<Rightarrow>
          (case subscript decoded ''body'' of
             Inl e \<Rightarrow> Inl e
           | Inr body \<Rightarrow>
               (case subscript body ''dry-run'' of
                  Inl e \<Rightarrow> Inl e
                | Inr dry_run \<Rightarrow>
                    (case subscript dry_run ''Secrets'' of
                       Inl e \<Rightarrow> Inl e
                     | Inr secrets \<Rightarrow> iterate secrets))))"

section \<open>The specification's descriptions\<close>

text \<open>
  The translation the specification describes for the challenge header: the server writes
  a space as the two characters backslash and plus, and each such pair becomes a space
  again. Every other character, a plus with no backslash before it included, is kept.
\<close>

fun unescape_plus :: "string \<Rightarrow> string" where
  "unescape_plus [] = []"
| "unescape_plus [c] = [c]"
| "unescape_plus (c # d # cs) =
     (if c = CHR 0x5C \<and> d = CHR ''+'' then CHR '' '' # unescape_plus cs
      else c # unescape_plus (d # cs))"

text \<open>
  The entry the specification describes for one secret of the dry run: the secret's data
  is decrypted with the client's own key (engine call \<open>k\<close>, with the passphrase of the
  configuration), the target user's key is imported (call \<open>k + 1\<close>) and the plaintext is
  encrypted to its fingerprint (call \<open>k + 2\<close>); the entry holds the secret's resource
  id, the target user and the new ciphertext. \<open>None\<close> when a part is missing or the
  engine raises.
\<close>

definition reencrypted_entry ::
  "env \<Rightarrow> json \<Rightarrow> string \<Rightarrow> json \<Rightarrow> nat \<Rightarrow> json \<Rightarrow> json option" where
  "reencrypted_entry E cfg user_id user_key k secret =
     (case subscript secret ''Secret'' of
        Inl e \<Rightarrow> None
      | Inr held \<Rightarrow>
     (case subscript0 held of
        Inl e \<Rightarrow> None
      | Inr first \<Rightarrow>
     (case (subscript first ''resource_id'', subscript first ''data'',
            dict_get cfg ''passphrase'',
            subscript user_key ''armored_key'', subscript user_key ''fingerprint'') of
        (Inr resource_id, Inr data, Inr passphrase, Inr armored_key, Inr fingerprint) \<Rightarrow>
          (case (gpg_decrypt E k data passphrase, gpg_import_keys E (k + 1) armored_key) of
             (Inr decrypted, Inr imported) \<Rightarrow>
               (case gpg_encrypt E (k + 2) (crypt_data decrypted) fingerprint of
                  Inl e \<Rightarrow> None
                | Inr reencrypted \<Rightarrow>
                    Some (JObj [(''resource_id'', resource_id),
                                (''user_id'', JStr user_id),
                                (''data'', JStr (crypt_data reencrypted))]))
           | _ \<Rightarrow> None)
      | _ \<Rightarrow> None)))"

section \<open>Example data\<close>

text \<open>
  A stand-in for \<^verbatim>\<open>urllib.parse.unquote\<close> on the examples: it decodes the
  \<^verbatim>\<open>%XX\<close> escapes byte by byte and keeps a percent sign that no two hexadecimal
  digits follow.
\<close>

definition hex_digit :: "char \<Rightarrow> nat option" where
  "hex_digit c =
     (let n = (of_char c :: nat)
      in if 48 \<le> n \<and> n \<le> 57 then Some (n - 48)
         else if 65 \<le> n \<and> n \<le> 70 then Some (n - 55)
         else if 97 \<le> n \<and> n \<le> 102 then Some (n - 87)
         else None)"

fun percent_decode :: "string \<Rightarrow> string" where
  "percent_decode (c # a # b # cs) =
     (if c = CHR ''%'' then
        (case (hex_digit a, hex_digit b) of
           (Some x, Some y) \<Rightarrow> char_of (16 * x + y) # percent_decode cs
         | _ \<Rightarrow> c # percent_decode (a # b # cs))
      else c # percent_decode (a # b # cs))"
| "percent_decode cs = cs"

text \<open>
  A toy engine: a message for the key with fingerprint \<open>F\<close> is the text \<open>F|plaintext\<close>.
  The client's own key is \<open>F00D\<close> and its passphrase \<open>secret\<close>; what the client cannot
  decrypt gives a result that is not \<open>ok\<close> and whose text is empty, without raising.
\<close>

definition toy_decrypt :: "nat \<Rightarrow> json \<Rightarrow> json \<Rightarrow> error + crypt" where
  "toy_decrypt n message passphrase =
     Inr (case message of
            JStr m \<Rightarrow>
              if take 5 m = ''F00D|'' \<and> passphrase = JStr ''secret''
              then \<lparr>crypt_ok = True, crypt_data = drop 5 m\<rparr>
              else \<lparr>crypt_ok = False, crypt_data = []\<rparr>
          | _ \<Rightarrow> \<lparr>crypt_ok = False, crypt_data = []\<rparr>)"

definition toy_encrypt :: "nat \<Rightarrow> string \<Rightarrow> json \<Rightarrow> error + crypt" where
  "toy_encrypt n message recipient =
     Inr (case recipient of
            JStr fpr \<Rightarrow> \<lparr>crypt_ok = True, crypt_data = fpr @ ''|'' @ message\<rparr>
          | _ \<Rightarrow> \<lparr>crypt_ok = False, crypt_data = []\<rparr>)"

definition example_env :: env where
  "example_env =
     \<lparr>unquote = percent_decode,
      gpg_decrypt = toy_decrypt,
      gpg_import_keys = (\<lambda>n key. Inr ()),
      gpg_encrypt = toy_encrypt\<rparr>"

definition example_self :: passbolt where
  "example_self =
     \<lparr>config = JObj [(''gpgbinary'', JStr ''gpg''), (''base_url'', JStr ''https://pb.test''),
                     (''private_key'', JStr ''KEY''), (''passphrase'', JStr ''secret'')],
      FINGERPRINT = ''F00D'',
      base_url = ''https://pb.test'',
      login_url = ''https://pb.test/auth/login.json'',
      users_url = ''https://pb.test/users.json'',
      me_url = ''https://pb.test/users/me.json'',
      groups_url = ''https://pb.test/groups.json'',
      authenticated = False,
      token = JNull,
      USER_ID = JNull,
      pgp_message = JNull,
      nonce = None,
      session_headers = [],
      cookies = []\<rparr>"

text \<open>
  A stand-in for the cookie handling of the client library on the examples: the name and
  value of the cookie a response sets are added to the store.
\<close>

definition keep_cookies :: "string list \<Rightarrow> response \<Rightarrow> string list" where
  "keep_cookies held r =
     (case headers_get r ''set-cookie'' of
        None \<Rightarrow> held
      | Some c \<Rightarrow> held @ [takeWhile (\<lambda>ch. ch \<noteq> CHR '';'') c])"

definition example_state :: "passbolt \<Rightarrow> response list \<Rightarrow> state" where
  "example_state me rs =
     \<lparr>self = me,
      world = \<lparr>pending = rs, sent = [], console = [], gpg_calls = 0,
               jar = [], store_cookies = keep_cookies\<rparr>\<rparr>"

definition envelope :: "int \<Rightarrow> json \<Rightarrow> json" where
  "envelope code body = JObj [(''header'', JObj [(''code'', JInt code)]), (''body'', body)]"

definition ok_response :: "json \<Rightarrow> response" where
  "ok_response j = \<lparr>status_code = 200, headers = [], resp_text = Json j\<rparr>"

text \<open>
  Handshake responses: a challenge, whose header holds an escaped bar, the pair backslash
  and plus, and an escaped plus; a challenge the client cannot decrypt; a refusal.
\<close>

definition challenge_response :: response where
  "challenge_response =
     \<lparr>status_code = 200,
      headers = [(''x-gpgauth-user-auth-token'',
                  ''F00D%7Cmy'' @ [CHR 0x5C, CHR ''+''] @ ''nonce%2B1'')],
      resp_text = Json (envelope 200 JNull)\<rparr>"

definition garbled_challenge :: response where
  "garbled_challenge =
     \<lparr>status_code = 200,
      headers = [(''x-gpgauth-user-auth-token'', ''not-a-message'')],
      resp_text = Json (envelope 200 JNull)\<rparr>"

definition refused :: response where
  "refused = \<lparr>status_code = 403, headers = [], resp_text = Json (envelope 403 (JStr []))\<rparr>"

definition me_response :: response where
  "me_response =
     \<lparr>status_code = 200,
      headers = [(''set-cookie'', ''csrfToken=abc123; path=/'')],
      resp_text = Json (envelope 200 (JObj [(''id'', JStr ''u-me'')]))\<rparr>"

definition root_response :: response where
  "root_response = \<lparr>status_code = 200, headers = [], resp_text = NotJson\<rparr>"

definition root_down :: response where
  "root_down = \<lparr>status_code = 503, headers = [], resp_text = NotJson\<rparr>"

definition root_sets_cookie :: response where
  "root_sets_cookie =
     \<lparr>status_code = 200,
      headers = [(''set-cookie'', ''passbolt_session=s1; path=/'')],
      resp_text = NotJson\<rparr>"

definition accepted :: response where
  "accepted = ok_response (envelope 200 JNull)"

text \<open>
  Four handshakes: one that succeeds; one where the challenge cannot be decrypted and the
  server accepts stage 2 all the same; one where the server refuses stage 2 and the
  who-am-I request; one where the server refuses stage 1.
\<close>

definition good_handshake :: state where
  "good_handshake =
     example_state example_self [challenge_response, accepted, me_response, root_response]"

definition spoofed_handshake :: state where
  "spoofed_handshake =
     example_state example_self [garbled_challenge, accepted, me_response, root_response]"

definition rejected_handshake :: state where
  "rejected_handshake =
     example_state example_self [garbled_challenge, refused, refused, root_response]"

definition refused_handshake :: state where
  "refused_handshake =
     example_state example_self [refused, refused, me_response, root_down]"

text \<open>
  Users and groups; two users share an address, two groups a name, and one user has two
  memberships of the same group after a membership of another group.
\<close>

definition ada :: json where
  "ada = JObj [(''id'', JStr ''u1''), (''username'', JStr ''ada@pb.test''),
               (''groups_users'', JList [])]"

definition bob :: json where
  "bob = JObj [(''id'', JStr ''u2''), (''username'', JStr ''bob@pb.test''),
               (''groups_users'',
                JList [JObj [(''id'', JStr ''m6''), (''group_id'', JStr ''g0'')],
                       JObj [(''id'', JStr ''m7''), (''group_id'', JStr ''g1'')],
                       JObj [(''id'', JStr ''m8''), (''group_id'', JStr ''g1'')]])]"

definition bob_again :: json where
  "bob_again = JObj [(''id'', JStr ''u3''), (''username'', JStr ''bob@pb.test''),
                     (''groups_users'', JList [])]"

definition users_response :: response where
  "users_response = ok_response (envelope 200 (JList [ada, bob, bob_again]))"

definition devs :: json where
  "devs = JObj [(''id'', JStr ''g1''), (''name'', JStr ''devs'')]"

definition devs_again :: json where
  "devs_again = JObj [(''id'', JStr ''g2''), (''name'', JStr ''devs'')]"

definition groups_response :: response where
  "groups_response = ok_response (envelope 200 (JList [devs, devs_again]))"

text \<open>A dry run that lists two secrets, the key of the user to add, and a refusal.\<close>

definition dry_run_response :: response where
  "dry_run_response =
     ok_response (envelope 200 (JObj [(''dry-run'', JObj [(''Secrets'', JList
       [JObj [(''Secret'', JList [JObj [(''resource_id'', JStr ''r1''),
                                        (''data'', JStr ''F00D|pw-one'')]])],
        JObj [(''Secret'', JList [JObj [(''resource_id'', JStr ''r2''),
                                        (''data'', JStr ''F00D|pw-two'')]])]])])]))"

definition bob_key_response :: response where
  "bob_key_response =
     ok_response (envelope 200 (JObj [(''id'', JStr ''u2''),
       (''gpgkey'', JObj [(''armored_key'', JStr ''BOBKEY''), (''fingerprint'', JStr ''B0B'')])]))"

definition committed :: response where
  "committed = ok_response (envelope 200 (JObj [(''id'', JStr ''g1'')]))"

definition forbidden :: response where
  "forbidden =
     \<lparr>status_code = 403, headers = [(''content-type'', ''application/json'')],
      resp_text = Json (envelope 403 (JStr []))\<rparr>"

text \<open>A file system with one configuration file, and an environment with one variable.\<close>

definition example_files :: "string \<times> string \<Rightarrow> (error + json) option" where
  "example_files path =
     (if path = (''/app'', ''config.json'')
      then Some (Inr (JObj [(''base_url'', JStr ''https://file'')]))
      else None)"

definition example_environ :: "string \<rightharpoonup> string" where
  "example_environ = [''PASSBOLT_BASEURL'' \<mapsto> ''https://env'']"

section \<open>Basic facts\<close>

lemmas io_defs =
  io_bind_def io_lift_def io_return_def send_def emit_def assign_def gpg_call_def

lemma io_bind_Inr:
  "io_bind m f s = (Inr y, s'') \<longleftrightarrow> (\<exists>x s'. m s = (Inr x, s') \<and> f x s' = (Inr y, s''))"
  by (auto simp: io_bind_def split: prod.splits sum.splits)

lemma io_lift_Inr: "io_lift r s = (Inr y, s') \<longleftrightarrow> r = Inr y \<and> s' = s"
  by (auto simp: io_lift_def)

lemma io_return_Inr: "io_return x s = (Inr y, s') \<longleftrightarrow> x = y \<and> s' = s"
  by (auto simp: io_return_def)

lemma assign_Inr: "assign f s = (Inr u, s') \<longleftrightarrow> s' = s\<lparr>self := f (self s)\<rparr>"
  by (auto simp: assign_def)

lemma send_Inr:
  "send rq s = (Inr r, s') \<longleftrightarrow>
     (\<exists>rs. pending (world s) = r # rs \<and>
           s' = s\<lparr>world := (world s)\<lparr>pending := rs, sent := sent (world s) @ [rq],
                  jar := store_cookies (world s) (jar (world s)) r\<rparr>\<rparr>)"
  by (auto simp: send_def split: list.splits)

lemma eq_str_iff: "eq_str v s \<longleftrightarrow> v = JStr s"
  by (cases v) auto

lemma str_replace_unescape:
  "str_replace [CHR 0x5C, CHR ''+''] '' '' s = unescape_plus s"
  by (induction s rule: unescape_plus.induct) auto

section \<open>Properties of the handshake\<close>

lemma stage1_Inr:
  assumes "stage1 E s = (Inr m, s1)"
  shows "\<exists>r rs. pending (world s) = r # rs \<and> pending (world s1) = rs \<and> self s1 = self s"
  using assms unfolding stage1_def Let_def
  by (auto simp: io_bind_Inr io_lift_Inr io_return_Inr send_Inr emit_def
      split: if_splits option.splits)

lemma decrypt_frame:
  assumes "decrypt E m s = (res, s1)"
  shows "pending (world s1) = pending (world s) \<and> self s1 = self s"
  using assms
  by (auto simp: decrypt_def io_bind_def io_lift_def gpg_call_def split: sum.splits)

lemma stage2_Inr:
  assumes "stage2 t s = (Inr a, s1)"
  shows "\<exists>r rs. pending (world s) = r # rs \<and> pending (world s1) = rs \<and> self s1 = self s
           \<and> a = code_is_200 r"
  using assms unfolding stage2_def Let_def
  by (auto simp: io_bind_Inr io_lift_Inr io_return_Inr send_Inr code_is_200_def envelope_code_def
      split: if_splits)

lemma get_cookie_frame:
  assumes "get_cookie s = (res, s1)"
  shows "authenticated (self s1) = authenticated (self s)"
  using assms unfolding get_cookie_def Let_def
  by (auto simp: io_bind_def io_lift_def send_def assign_def
      split: sum.splits list.splits option.splits prod.splits)

lemma check_login_self: "self (snd (check_login s)) = self s"
  by (simp add: check_login_def io_bind_def send_def emit_def io_return_def split: list.splits)

text \<open>
  C1. The specification makes the flag depend on all three stages. The code sets
  \<open>authenticated\<close> to what \<open>stage2\<close> returns and tests nothing else: \<open>login\<close> has no
  branch, so a stage-1 code other than 200 or a failed decryption does not stop the
  handshake. What holds: whenever \<open>login\<close> completes, it has consumed at least the two
  stage responses, and the flag is true exactly when the envelope code of the stage-2
  response is 200.
\<close>

theorem login_authenticated:
  assumes "login E s = (Inr u, s')"
  shows "\<exists>r1 r2 rs. pending (world s) = r1 # r2 # rs
           \<and> (authenticated (self s') \<longleftrightarrow> code_is_200 r2)"
proof -
  from assms obtain m s1 n s2 a s3 s4 where
    st1: "stage1 E s = (Inr m, s1)" and
    dec: "decrypt E m (s1\<lparr>self := (self s1)\<lparr>pgp_message := m\<rparr>\<rparr>) = (Inr n, s2)" and
    st2: "stage2 (crypt_data n) (s2\<lparr>self := (self s2)\<lparr>nonce := Some n\<rparr>\<rparr>) = (Inr a, s3)" and
    ck: "get_cookie (s3\<lparr>self := (self s3)\<lparr>authenticated := a\<rparr>\<rparr>) = (Inr (), s4)" and
    cl: "check_login s4 = (Inr u, s')"
    unfolding login_def by (auto simp: io_bind_Inr assign_Inr)
  from stage1_Inr[OF st1] obtain r1 rs1 where
    p1: "pending (world s) = r1 # rs1" "pending (world s1) = rs1" by blast
  from decrypt_frame[OF dec] have p2: "pending (world s2) = rs1" using p1 by simp
  from stage2_Inr[OF st2] obtain r2 rs2 where
    p3: "rs1 = r2 # rs2" and a: "a = code_is_200 r2" using p2 by auto
  from get_cookie_frame[OF ck] have "authenticated (self s4) = a" by simp
  moreover have "self s' = self s4" using check_login_self[of s4] cl by simp
  ultimately show ?thesis using p1 p3 a by simp
qed

text \<open>A handshake that succeeds: the flag is set, and the stage-2 code is 200.\<close>

theorem login_authenticated_witness:
  "fst (login example_env good_handshake) = Inr ()
   \<and> authenticated (self (snd (login example_env good_handshake)))
   \<and> code_is_200 accepted"
proof -
  have ok: "fst (login example_env good_handshake) = Inr ()"
    by (simp add: good_handshake_def login_def stage1_def decrypt_def
        stage2_def get_cookie_def check_login_def slice_def io_defs
        example_env_def example_self_def example_state_def envelope_def ok_response_def
        toy_decrypt_def headers_get_def hex_digit_def
        challenge_response_def accepted_def me_response_def root_response_def
        Let_def char_of_eq_iff)
  have c: "code_is_200 accepted"
    by (simp add: code_is_200_def envelope_code_def accepted_def ok_response_def envelope_def)
  have run: "login example_env good_handshake = (Inr (), snd (login example_env good_handshake))"
    using ok by (simp add: prod_eq_iff)
  have p: "pending (world good_handshake) =
      challenge_response # accepted # [me_response, root_response]"
    by (simp add: good_handshake_def example_state_def)
  from login_authenticated[OF run] p c
  have "authenticated (self (snd (login example_env good_handshake)))"
    by auto
  with ok c show ?thesis by simp
qed

text \<open>
  The challenge is not a message for the client, so the decryption fails (the result is
  not \<open>ok\<close>); the server answers 200 to stage 2, and the client is authenticated.
\<close>

theorem login_authenticated_counterexample:
  "fst (login example_env spoofed_handshake) = Inr ()
   \<and> authenticated (self (snd (login example_env spoofed_handshake)))
   \<and> nonce (self (snd (login example_env spoofed_handshake)))
       = Some \<lparr>crypt_ok = False, crypt_data = []\<rparr>"
  by (simp add: spoofed_handshake_def login_def stage1_def decrypt_def
      stage2_def get_cookie_def check_login_def slice_def io_defs
      example_env_def example_self_def example_state_def envelope_def ok_response_def
      toy_decrypt_def headers_get_def
      garbled_challenge_def accepted_def me_response_def root_response_def Let_def)

text \<open>
  C6. The specification has a failed handshake end in a console report and an
  unauthenticated client, with no exception. In the code no stage failure ends \<open>login\<close>:
  it always goes on to the next stage, the who-am-I request and the liveness check. What
  holds, for every stage-1 code, decryption result and stage-2 code: when the four
  responses arrive, both envelopes carry a code (and the challenge header comes with a
  stage-1 code of 200), the configuration has a passphrase entry to read, the engine
  returns a result object, and the who-am-I response has a \<open>set-cookie\<close> header and a
  \<open>body.id\<close>, then \<open>login\<close> completes; the client is authenticated exactly when the
  stage-2 code is 200; and the only failure of the handshake written to the console is a
  stage-1 code other than 200, whose envelope is pretty-printed. A failed decryption and
  a stage-2 code other than 200 print nothing.
\<close>

theorem login_failed_stage:
  assumes "pending (world s) = r1 # r2 # r3 # r4 # rs"
    and "resp_text r1 = Json j1"
    and "envelope_code r1 = Inr c1"
    and "eq_int c1 200 \<longrightarrow> headers_get r1 ''x-gpgauth-user-auth-token'' = Some h"
    and "dict_get (config (self s)) ''passphrase'' = Inr p"
    and "gpg_decrypt E (gpg_calls (world s))
           (if eq_int c1 200 then JStr (unescape_plus (unquote E h)) else JNull) p = Inr n"
    and "envelope_code r2 = Inr c2"
    and "resp_text r3 = Json j3"
    and "subscript j3 ''body'' = Inr b"
    and "subscript b ''id'' = Inr uid"
    and "headers_get r3 ''set-cookie'' = Some t"
  shows "fst (login E s) = Inr ()
       \<and> authenticated (self (snd (login E s))) = eq_int c2 200
       \<and> console (world (snd (login E s))) =
           console (world s) @ (if eq_int c1 200 then [] else [Pprint j1]) @
             (if status_code r4 = 200 then []
              else [PrintStr ''Falha no login'', PrintResponse r4])"
proof -
  from assms(2,3) obtain hd1 where
    h1: "subscript j1 ''header'' = Inr hd1" "subscript hd1 ''code'' = Inr c1"
    by (auto simp: envelope_code_def split: sum.splits)
  from assms(7) obtain j2 hd2 where
    h2: "resp_text r2 = Json j2" "subscript j2 ''header'' = Inr hd2"
      "subscript hd2 ''code'' = Inr c2"
    by (cases "resp_text r2") (auto simp: envelope_code_def split: sum.splits)
  show ?thesis
    using assms h1 h2
    by (cases "eq_int c1 200")
       (simp_all add: login_def stage1_def decrypt_def stage2_def get_cookie_def
          check_login_def io_defs Let_def str_replace_unescape)
qed

text \<open>
  The server refuses stage 1 and stage 2: the envelope of stage 1 is printed, then the
  liveness report; the client is not authenticated and \<open>login\<close> returns.
\<close>

theorem login_failed_stage_witness:
  "fst (login example_env refused_handshake) = Inr ()
   \<and> authenticated (self (snd (login example_env refused_handshake))) = False
   \<and> console (world (snd (login example_env refused_handshake))) =
       [Pprint (envelope 403 (JStr [])), PrintStr ''Falha no login'', PrintResponse root_down]"
proof -
  have p: "pending (world refused_handshake) = refused # refused # me_response # root_down # []"
    by (simp add: refused_handshake_def example_state_def)
  have j1: "resp_text refused = Json (envelope 403 (JStr []))"
    by (simp add: refused_def)
  have c1: "envelope_code refused = Inr (JInt 403)"
    by (simp add: refused_def envelope_def envelope_code_def)
  have hdr: "eq_int (JInt 403) 200 \<longrightarrow>
      headers_get refused ''x-gpgauth-user-auth-token'' = Some []"
    by simp
  have pw: "dict_get (config (self refused_handshake)) ''passphrase'' = Inr (JStr ''secret'')"
    by (simp add: refused_handshake_def example_state_def example_self_def)
  have dec: "gpg_decrypt example_env (gpg_calls (world refused_handshake))
      (if eq_int (JInt 403) 200 then JStr (unescape_plus (unquote example_env [])) else JNull)
      (JStr ''secret'') = Inr \<lparr>crypt_ok = False, crypt_data = []\<rparr>"
    by (simp add: example_env_def toy_decrypt_def)
  have j3: "resp_text me_response = Json (envelope 200 (JObj [(''id'', JStr ''u-me'')]))"
    by (simp add: me_response_def)
  have b: "subscript (envelope 200 (JObj [(''id'', JStr ''u-me'')])) ''body''
      = Inr (JObj [(''id'', JStr ''u-me'')])"
    by (simp add: envelope_def)
  have uid: "subscript (JObj [(''id'', JStr ''u-me'')]) ''id'' = Inr (JStr ''u-me'')"
    by simp
  have ck: "headers_get me_response ''set-cookie'' = Some ''csrfToken=abc123; path=/''"
    by (simp add: me_response_def headers_get_def)
  from login_failed_stage[OF p j1 c1 hdr pw dec c1 j3 b uid ck]
  show ?thesis
    by (simp add: refused_handshake_def example_state_def root_down_def)
qed

text \<open>
  The challenge cannot be decrypted, and the server refuses stage 2 and the who-am-I
  request: \<open>login\<close> raises in \<open>get_cookie\<close>, and nothing has been written to the console.
\<close>

theorem login_failed_stage_counterexample:
  "fst (login example_env rejected_handshake) = Inl TypeError
   \<and> console (world (snd (login example_env rejected_handshake))) = []"
  by (simp add: rejected_handshake_def login_def stage1_def decrypt_def
      stage2_def get_cookie_def check_login_def slice_def io_defs
      example_env_def example_self_def example_state_def envelope_def ok_response_def
      toy_decrypt_def headers_get_def
      garbled_challenge_def refused_def root_response_def Let_def)

text \<open>
  C4. For every stage-1 response whose envelope code is 200 and that carries the
  challenge header, \<open>stage1\<close> returns the header's value URL-decoded, with every
  occurrence of the pair backslash and plus turned into a space.
\<close>

theorem stage1_challenge:
  assumes "pending (world s) = r # rs"
    and "envelope_code r = Inr code"
    and "eq_int code 200"
    and "headers_get r ''x-gpgauth-user-auth-token'' = Some h"
  shows "fst (stage1 E s) = Inr (JStr (unescape_plus (unquote E h)))"
  using assms
  by (auto simp: stage1_def Let_def io_bind_def send_def io_lift_def io_return_def
      envelope_code_def str_replace_unescape split: sum.splits)

text \<open>
  The header of the example holds the pair once, and an escaped plus: after decoding,
  the pair has become a space and the plus is still a plus.
\<close>

theorem stage1_challenge_witness:
  "fst (stage1 example_env (example_state example_self [challenge_response]))
     = Inr (JStr ''F00D|my nonce+1'')"
proof -
  have p: "pending (world (example_state example_self [challenge_response]))
      = challenge_response # []"
    by (simp add: example_state_def)
  have c: "envelope_code challenge_response = Inr (JInt 200)"
    by (simp add: challenge_response_def envelope_def envelope_code_def)
  have e: "eq_int (JInt 200) 200"
    by simp
  have h: "headers_get challenge_response ''x-gpgauth-user-auth-token''
      = Some (''F00D%7Cmy'' @ [CHR 0x5C, CHR ''+''] @ ''nonce%2B1'')"
    by (simp add: challenge_response_def headers_get_def)
  from stage1_challenge[OF p c e h, of example_env] show ?thesis
    by (simp add: example_env_def hex_digit_def char_of_eq_iff)
qed

text \<open>
  C9. Whatever the liveness check receives, \<open>check_login\<close> assigns no attribute of the
  client: the flag, the token, the user id, the session headers and the never used
  \<open>cookies\<close> object are as before, also when the request fails in the transport, and the
  cookie handling of the session is the same. When a response arrives the call returns
  without raising, and a status other than 200 only adds two lines to the console. The
  cookies the session holds are what its client makes of the response, whatever the
  status: they are as before when it stores nothing for this response, and only then.
\<close>

theorem check_login_frame:
  "self (snd (check_login s)) = self s
   \<and> store_cookies (world (snd (check_login s))) = store_cookies (world s)
   \<and> (\<forall>r rs. pending (world s) = r # rs \<longrightarrow>
        fst (check_login s) = Inr ()
        \<and> console (world (snd (check_login s))) =
            console (world s) @
              (if status_code r = 200 then []
               else [PrintStr ''Falha no login'', PrintResponse r])
        \<and> jar (world (snd (check_login s))) = store_cookies (world s) (jar (world s)) r
        \<and> (jar (world (snd (check_login s))) = jar (world s)
             \<longleftrightarrow> store_cookies (world s) (jar (world s)) r = jar (world s)))
   \<and> (pending (world s) = [] \<longrightarrow>
        fst (check_login s) = Inl TransportError
        \<and> jar (world (snd (check_login s))) = jar (world s))"
  by (simp add: check_login_def io_bind_def send_def emit_def io_return_def split: list.splits)

text \<open>
  The server answers 503, and sets no cookie, to an authenticated client that holds no
  cookie: two lines, and no change.
\<close>

theorem check_login_frame_witness:
  "pending (world (example_state (example_self\<lparr>authenticated := True\<rparr>) [root_down]))
     = [root_down]
   \<and> self (snd (check_login (example_state (example_self\<lparr>authenticated := True\<rparr>) [root_down])))
     = example_self\<lparr>authenticated := True\<rparr>
   \<and> fst (check_login (example_state (example_self\<lparr>authenticated := True\<rparr>) [root_down]))
     = Inr ()
   \<and> console (world (snd (check_login
        (example_state (example_self\<lparr>authenticated := True\<rparr>) [root_down]))))
     = [PrintStr ''Falha no login'', PrintResponse root_down]
   \<and> jar (world (snd (check_login
        (example_state (example_self\<lparr>authenticated := True\<rparr>) [root_down]))))
     = []"
  using check_login_frame
    [of "example_state (example_self\<lparr>authenticated := True\<rparr>) [root_down]"]
  by (simp add: example_state_def root_down_def keep_cookies_def headers_get_def)

text \<open>
  The cookies are not as before for every response: the server answers the liveness check
  of an authenticated client with status 200 and sets a cookie, and the session, which
  held no cookie, holds one after the call, while the client's attributes are as before.
\<close>

theorem check_login_frame_counterexample:
  "status_code root_sets_cookie = 200
   \<and> jar (world (example_state (example_self\<lparr>authenticated := True\<rparr>) [root_sets_cookie])) = []
   \<and> fst (check_login
        (example_state (example_self\<lparr>authenticated := True\<rparr>) [root_sets_cookie])) = Inr ()
   \<and> self (snd (check_login
        (example_state (example_self\<lparr>authenticated := True\<rparr>) [root_sets_cookie])))
     = example_self\<lparr>authenticated := True\<rparr>
   \<and> jar (world (snd (check_login
        (example_state (example_self\<lparr>authenticated := True\<rparr>) [root_sets_cookie]))))
     = [''passbolt_session=s1'']"
  by (simp add: check_login_def io_bind_def send_def emit_def io_return_def
      example_state_def root_sets_cookie_def keep_cookies_def headers_get_def)

section \<open>Properties of the configuration loader\<close>

text \<open>
  C7. \<open>load_config\<close> resolves the configuration in this order. A mapping argument that is
  not empty becomes the configuration as it is. With an empty mapping, the parsed
  contents of the file at the path become the configuration when the file exists. With
  neither, the configuration is built from the four environment variables, each
  replaced by its placeholder when it is absent, and the call returns whatever the
  environment holds. The only call that raises is one whose file exists and cannot be
  read as JSON.
\<close>

theorem load_config_order:
  "(kvs \<noteq> [] \<longrightarrow>
      load_config files environ config_filename config_filepath (JObj kvs) s
        = (Inr (), s\<lparr>self := (self s)\<lparr>config := JObj kvs\<rparr>\<rparr>))
   \<and> (files (config_filepath, config_filename) = Some (Inr loaded) \<longrightarrow>
      load_config files environ config_filename config_filepath (JObj []) s
        = (Inr (), s\<lparr>self := (self s)\<lparr>config := loaded\<rparr>\<rparr>))
   \<and> (files (config_filepath, config_filename) = None \<longrightarrow>
      load_config files environ config_filename config_filepath (JObj []) s
        = (Inr (), s\<lparr>self := (self s)\<lparr>config := JObj
            [(''gpgbinary'',
              JStr (case environ ''PASSBOLT_GPGBINARY'' of None \<Rightarrow> ''gpg'' | Some v \<Rightarrow> v)),
             (''base_url'',
              JStr (case environ ''PASSBOLT_BASEURL'' of
                      None \<Rightarrow> ''https://undefined'' | Some v \<Rightarrow> v)),
             (''private_key'',
              JStr (case environ ''PASSBOLT_PRIVATE_KEY'' of
                      None \<Rightarrow> ''undefined'' | Some v \<Rightarrow> v)),
             (''passphrase'',
              JStr (case environ ''PASSBOLT_PASSPHRASE'' of
                      None \<Rightarrow> ''gpg'' | Some v \<Rightarrow> v))]\<rparr>\<rparr>))
   \<and> (files (config_filepath, config_filename) = Some (Inl e) \<longrightarrow>
      load_config files environ config_filename config_filepath (JObj []) s = (Inl e, s))"
  by (simp add: load_config_def assign_def io_bind_def io_lift_def environ_get_def)

text \<open>
  With the file \<open>/app/config.json\<close> present and \<open>PASSBOLT_BASEURL\<close> set: the argument
  wins over the file, and the file over the environment. With no file, the variable that
  is set is used and the three others get their placeholders.
\<close>

theorem load_config_order_witness:
  "load_config example_files example_environ ''config.json'' ''/app''
      (JObj [(''base_url'', JStr ''https://arg'')]) (example_state example_self [])
     = (Inr (), example_state (example_self\<lparr>config := JObj [(''base_url'', JStr ''https://arg'')]\<rparr>) [])
   \<and> load_config example_files example_environ ''config.json'' ''/app''
      (JObj []) (example_state example_self [])
     = (Inr (), example_state (example_self\<lparr>config := JObj [(''base_url'', JStr ''https://file'')]\<rparr>) [])
   \<and> load_config (\<lambda>path. None) example_environ ''config.json'' ''/app''
      (JObj []) (example_state example_self [])
     = (Inr (), example_state (example_self\<lparr>config := JObj
          [(''gpgbinary'', JStr ''gpg''),
           (''base_url'', JStr ''https://env''),
           (''private_key'', JStr ''undefined''),
           (''passphrase'', JStr ''gpg'')]\<rparr>) [])"
  using
    load_config_order [where kvs = "[(''base_url'', JStr ''https://arg'')]"
      and files = example_files and environ = example_environ
      and config_filename = "''config.json''" and config_filepath = "''/app''"
      and s = "example_state example_self []"]
    load_config_order [where files = example_files and environ = example_environ
      and config_filename = "''config.json''" and config_filepath = "''/app''"
      and loaded = "JObj [(''base_url'', JStr ''https://file'')]"
      and s = "example_state example_self []"]
    load_config_order [where files = "\<lambda>path. None" and environ = example_environ
      and config_filename = "''config.json''" and config_filepath = "''/app''"
      and s = "example_state example_self []"]
  by (simp add: example_files_def example_environ_def example_state_def)

section \<open>Properties of the lookups\<close>

lemma first_with_find:
  assumes "\<forall>x\<in>set xs. \<exists>field. subscript x key = Inr field"
  shows "first_with key wanted xs =
           Inr (case find (\<lambda>x. subscript x key = Inr (JStr wanted)) xs of
                  None \<Rightarrow> JNull | Some x \<Rightarrow> x)"
  using assms by (induction xs) (auto simp: eq_str_iff)

lemma membership_id_find:
  assumes "\<forall>x\<in>set xs. \<exists>field. subscript x ''group_id'' = Inr field"
  shows "membership_id group_id xs =
           (case find (\<lambda>x. subscript x ''group_id'' = Inr (JStr group_id)) xs of
              None \<Rightarrow> Inr JNull | Some x \<Rightarrow> subscript x ''id'')"
  using assms by (induction xs) (auto simp: eq_str_iff)

lemma get_users_list:
  assumes "pending (world s) = r # rs" and "resp_text r = Json j"
    and "subscript j ''body'' = Inr body"
  shows "get_users s = (Inr body, s\<lparr>world := (world s)\<lparr>pending := rs, sent := sent (world s) @
           [\<lparr>req_method = GET, req_url = users_url (self s), req_json = None\<rparr>],
           jar := store_cookies (world s) (jar (world s)) r\<rparr>\<rparr>)"
  using assms by (simp add: get_users_def io_defs)

lemma get_groups_list:
  assumes "pending (world s) = r # rs" and "resp_text r = Json j"
    and "subscript j ''body'' = Inr body"
  shows "get_groups s = (Inr body, s\<lparr>world := (world s)\<lparr>pending := rs, sent := sent (world s) @
           [\<lparr>req_method = GET, req_url = groups_url (self s), req_json = None\<rparr>],
           jar := store_cookies (world s) (jar (world s)) r\<rparr>\<rparr>)"
  using assms by (simp add: get_groups_def io_defs)

text \<open>
  C5. Let the server answer the listing request with the list \<open>xs\<close>, each entity of which
  has the field the lookup reads. Then each of the four lookups returns the first entity
  of \<open>xs\<close>, in list order, whose field equals the value asked for, and \<open>None\<close> when no
  entity has it (\<open>find\<close> is the first element of a list that satisfies a predicate).
\<close>

theorem lookup_first_match:
  assumes "pending (world s) = r # rs"
    and "resp_text r = Json j"
    and "subscript j ''body'' = Inr (JList xs)"
  shows "((\<forall>x\<in>set xs. \<exists>field. subscript x ''username'' = Inr field) \<longrightarrow>
            fst (get_user_by_email wanted s) =
              Inr (case find (\<lambda>x. subscript x ''username'' = Inr (JStr wanted)) xs of
                     None \<Rightarrow> JNull | Some x \<Rightarrow> x))
       \<and> ((\<forall>x\<in>set xs. \<exists>field. subscript x ''id'' = Inr field) \<longrightarrow>
            fst (get_user_by_id wanted s) =
              Inr (case find (\<lambda>x. subscript x ''id'' = Inr (JStr wanted)) xs of
                     None \<Rightarrow> JNull | Some x \<Rightarrow> x)
          \<and> fst (get_group_by_id wanted s) =
              Inr (case find (\<lambda>x. subscript x ''id'' = Inr (JStr wanted)) xs of
                     None \<Rightarrow> JNull | Some x \<Rightarrow> x))
       \<and> ((\<forall>x\<in>set xs. \<exists>field. subscript x ''name'' = Inr field) \<longrightarrow>
            fst (get_group_by_name wanted s) =
              Inr (case find (\<lambda>x. subscript x ''name'' = Inr (JStr wanted)) xs of
                     None \<Rightarrow> JNull | Some x \<Rightarrow> x))"
  using get_users_list[OF assms] get_groups_list[OF assms]
  by (simp add: get_user_by_email_def get_user_by_id_def get_group_by_name_def get_group_by_id_def
      io_bind_def io_lift_def first_with_find)

text \<open>
  Two users have the address \<open>bob@pb.test\<close> and two groups the name \<open>devs\<close>: the first
  of each is returned. Nobody has the address \<open>nobody@example.com\<close>.
\<close>

theorem lookup_first_match_witness:
  "fst (get_user_by_email ''bob@pb.test'' (example_state example_self [users_response])) = Inr bob
   \<and> fst (get_user_by_email ''nobody@example.com'' (example_state example_self [users_response]))
       = Inr JNull
   \<and> fst (get_user_by_id ''u3'' (example_state example_self [users_response])) = Inr bob_again
   \<and> fst (get_group_by_name ''devs'' (example_state example_self [groups_response])) = Inr devs
   \<and> fst (get_group_by_id ''g2'' (example_state example_self [groups_response])) = Inr devs_again"
proof -
  have pu: "pending (world (example_state example_self [users_response])) = users_response # []"
    and pg: "pending (world (example_state example_self [groups_response])) = groups_response # []"
    by (simp_all add: example_state_def)
  have ju: "resp_text users_response = Json (envelope 200 (JList [ada, bob, bob_again]))"
    and jg: "resp_text groups_response = Json (envelope 200 (JList [devs, devs_again]))"
    by (simp_all add: users_response_def groups_response_def ok_response_def)
  have bu: "subscript (envelope 200 (JList [ada, bob, bob_again])) ''body''
      = Inr (JList [ada, bob, bob_again])"
    and bg: "subscript (envelope 200 (JList [devs, devs_again])) ''body''
      = Inr (JList [devs, devs_again])"
    by (simp_all add: envelope_def)
  from lookup_first_match[OF pu ju bu, of "''bob@pb.test''"]
    lookup_first_match[OF pu ju bu, of "''nobody@example.com''"]
    lookup_first_match[OF pu ju bu, of "''u3''"]
    lookup_first_match[OF pg jg bg, of "''devs''"]
    lookup_first_match[OF pg jg bg, of "''g2''"]
  show ?thesis
    by (simp add: ada_def bob_def bob_again_def devs_def devs_again_def)
qed

section \<open>Properties of the group operations\<close>

lemma get_group_user_id_sent:
  assumes "get_group_user_id group_id user_id s = (found, s1)"
  shows "sent (world s1) = sent (world s) @
           [\<lparr>req_method = GET, req_url = users_url (self s), req_json = None\<rparr>]
       \<and> self s1 = self s"
  using assms unfolding get_group_user_id_def get_user_by_id_def get_users_def
  by (auto simp: io_defs split: sum.splits list.splits prod.splits)

text \<open>
  C8. Every call of \<open>update_user_to_group_admin\<close> first looks the membership up
  (\<open>get_group_user_id\<close>: one GET of the user list, then the scan of the target user's
  \<open>groups_users\<close>). When the lookup raises, the call raises with it and sends no PUT.
  Otherwise the call sends the dry-run PUT and, when the dry run answers with status 200,
  the commit PUT, and nothing else. Both carry the same body, with two keys only: the
  group id, and a \<open>groups_users\<close> list whose single entry holds the id the lookup
  returned and \<open>is_admin\<close> true. There is no \<open>secrets\<close> key.

  The id the lookup returns is the one the scan finds: when the server answers the
  listing with the list \<open>users\<close>, each of which has an \<open>id\<close>, the target user is the first
  of \<open>users\<close> whose \<open>id\<close> is the user id, and each of its membership records has a
  \<open>group_id\<close>, the lookup returns the \<open>id\<close> field of the first of these records, in list
  order, whose \<open>group_id\<close> is the group id (it raises \<open>KeyError\<close> when that record has no
  \<open>id\<close>), and \<open>None\<close> when no record is of the group.
\<close>

theorem update_user_to_group_admin_bodies:
  assumes "get_group_user_id group_id user_id s = (found, s1)"
  shows "sent (world s1) = sent (world s) @
           [\<lparr>req_method = GET, req_url = users_url (self s), req_json = None\<rparr>]
       \<and> (case found of
            Inl e \<Rightarrow> update_user_to_group_admin group_id user_id s = (Inl e, s1)
          | Inr group_user_id \<Rightarrow>
              sent (world (snd (update_user_to_group_admin group_id user_id s))) =
                sent (world s1) @
                  \<lparr>req_method = PUT,
                   req_url = base_url (self s) @ ''/groups/'' @ group_id @ ''/dry-run.json'',
                   req_json = Some (JObj [(''id'', JStr group_id),
                                          (''groups_users'',
                                           JList [JObj [(''id'', group_user_id),
                                                        (''is_admin'', JBool True)]])])\<rparr> #
                  (case pending (world s1) of
                     [] \<Rightarrow> []
                   | r # rs \<Rightarrow>
                       if status_code r = 200 then
                         [\<lparr>req_method = PUT,
                           req_url = base_url (self s) @ ''/groups/'' @ group_id @ ''.json'',
                           req_json = Some (JObj [(''id'', JStr group_id),
                                                  (''groups_users'',
                                                   JList [JObj [(''id'', group_user_id),
                                                                (''is_admin'', JBool True)]])])\<rparr>]
                       else []))
       \<and> (pending (world s) = listing # rest
            \<and> resp_text listing = Json j
            \<and> subscript j ''body'' = Inr (JList users)
            \<and> (\<forall>x\<in>set users. \<exists>field. subscript x ''id'' = Inr field)
            \<and> find (\<lambda>x. subscript x ''id'' = Inr (JStr user_id)) users = Some user
            \<and> subscript user ''groups_users'' = Inr (JList memberships)
            \<and> (\<forall>m\<in>set memberships. \<exists>field. subscript m ''group_id'' = Inr field)
          \<longrightarrow> pending (world s1) = rest
              \<and> found =
                  (case find (\<lambda>m. subscript m ''group_id'' = Inr (JStr group_id)) memberships of
                     None \<Rightarrow> Inr JNull
                   | Some m \<Rightarrow> subscript m ''id''))"
proof -
  have calls: "sent (world s1) = sent (world s) @
           [\<lparr>req_method = GET, req_url = users_url (self s), req_json = None\<rparr>]"
    and me: "self s1 = self s"
    using get_group_user_id_sent[OF assms] by simp_all
  have puts: "case found of
            Inl e \<Rightarrow> update_user_to_group_admin group_id user_id s = (Inl e, s1)
          | Inr group_user_id \<Rightarrow>
              sent (world (snd (update_user_to_group_admin group_id user_id s))) =
                sent (world s1) @
                  \<lparr>req_method = PUT,
                   req_url = base_url (self s) @ ''/groups/'' @ group_id @ ''/dry-run.json'',
                   req_json = Some (JObj [(''id'', JStr group_id),
                                          (''groups_users'',
                                           JList [JObj [(''id'', group_user_id),
                                                        (''is_admin'', JBool True)]])])\<rparr> #
                  (case pending (world s1) of
                     [] \<Rightarrow> []
                   | r # rs \<Rightarrow>
                       if status_code r = 200 then
                         [\<lparr>req_method = PUT,
                           req_url = base_url (self s) @ ''/groups/'' @ group_id @ ''.json'',
                           req_json = Some (JObj [(''id'', JStr group_id),
                                                  (''groups_users'',
                                                   JList [JObj [(''id'', group_user_id),
                                                                (''is_admin'', JBool True)]])])\<rparr>]
                       else [])"
    using calls me assms
    by (cases found)
       (auto simp: update_user_to_group_admin_def Let_def io_defs split: list.splits)
  have scan: "pending (world s1) = rest
              \<and> found =
                  (case find (\<lambda>m. subscript m ''group_id'' = Inr (JStr group_id)) memberships of
                     None \<Rightarrow> Inr JNull
                   | Some m \<Rightarrow> subscript m ''id'')"
    if p: "pending (world s) = listing # rest"
      and t: "resp_text listing = Json j"
      and b: "subscript j ''body'' = Inr (JList users)"
      and ids: "\<forall>x\<in>set users. \<exists>field. subscript x ''id'' = Inr field"
      and u: "find (\<lambda>x. subscript x ''id'' = Inr (JStr user_id)) users = Some user"
      and g: "subscript user ''groups_users'' = Inr (JList memberships)"
      and gids: "\<forall>m\<in>set memberships. \<exists>field. subscript m ''group_id'' = Inr field"
  proof -
    have "get_group_user_id group_id user_id s =
            (case find (\<lambda>m. subscript m ''group_id'' = Inr (JStr group_id)) memberships of
               None \<Rightarrow> Inr JNull
             | Some m \<Rightarrow> subscript m ''id'',
             s\<lparr>world := (world s)\<lparr>pending := rest, sent := sent (world s) @
               [\<lparr>req_method = GET, req_url = users_url (self s), req_json = None\<rparr>],
               jar := store_cookies (world s) (jar (world s)) listing\<rparr>\<rparr>)"
      unfolding get_group_user_id_def get_user_by_id_def
      by (simp add: io_bind_def io_lift_def get_users_list[OF p t b]
          first_with_find[OF ids] u g membership_id_find[OF gids])
    with assms show ?thesis by auto
  qed
  from calls puts scan show ?thesis by blast
qed

text \<open>
  The second user of the list has three memberships, of the groups \<open>g0\<close>, \<open>g1\<close> and \<open>g1\<close>
  in this order: for the group \<open>g1\<close> both PUT bodies carry \<open>m7\<close>, the id of the second
  record, which is neither the first record nor the last one of the group.
\<close>

theorem update_user_to_group_admin_bodies_witness:
  "find (\<lambda>x. subscript x ''id'' = Inr (JStr ''u2'')) [ada, bob, bob_again] = Some bob
   \<and> subscript bob ''groups_users'' =
       Inr (JList [JObj [(''id'', JStr ''m6''), (''group_id'', JStr ''g0'')],
                   JObj [(''id'', JStr ''m7''), (''group_id'', JStr ''g1'')],
                   JObj [(''id'', JStr ''m8''), (''group_id'', JStr ''g1'')]])
   \<and> fst (get_group_user_id ''g1'' ''u2''
          (example_state example_self [users_response, committed, committed]))
     = Inr (JStr ''m7'')
   \<and> sent (world (snd (update_user_to_group_admin ''g1'' ''u2''
          (example_state example_self [users_response, committed, committed]))))
     = [\<lparr>req_method = GET, req_url = ''https://pb.test/users.json'', req_json = None\<rparr>,
        \<lparr>req_method = PUT, req_url = ''https://pb.test/groups/g1/dry-run.json'',
         req_json = Some (JObj [(''id'', JStr ''g1''),
                                (''groups_users'',
                                 JList [JObj [(''id'', JStr ''m7''),
                                              (''is_admin'', JBool True)]])])\<rparr>,
        \<lparr>req_method = PUT, req_url = ''https://pb.test/groups/g1.json'',
         req_json = Some (JObj [(''id'', JStr ''g1''),
                                (''groups_users'',
                                 JList [JObj [(''id'', JStr ''m7''),
                                              (''is_admin'', JBool True)]])])\<rparr>]"
proof -
  let ?s = "example_state example_self [users_response, committed, committed]"
  let ?ms = "[JObj [(''id'', JStr ''m6''), (''group_id'', JStr ''g0'')],
              JObj [(''id'', JStr ''m7''), (''group_id'', JStr ''g1'')],
              JObj [(''id'', JStr ''m8''), (''group_id'', JStr ''g1'')]]"
  have p: "pending (world ?s) = users_response # [committed, committed]"
    by (simp add: example_state_def)
  have t: "resp_text users_response = Json (envelope 200 (JList [ada, bob, bob_again]))"
    by (simp add: users_response_def ok_response_def)
  have b: "subscript (envelope 200 (JList [ada, bob, bob_again])) ''body''
             = Inr (JList [ada, bob, bob_again])"
    by (simp add: envelope_def)
  have ids: "\<forall>x\<in>set [ada, bob, bob_again]. \<exists>field. subscript x ''id'' = Inr field"
    by (simp add: ada_def bob_def bob_again_def)
  have u: "find (\<lambda>x. subscript x ''id'' = Inr (JStr ''u2'')) [ada, bob, bob_again] = Some bob"
    by (simp add: ada_def bob_def bob_again_def)
  have g: "subscript bob ''groups_users'' = Inr (JList ?ms)"
    by (simp add: bob_def)
  have gids: "\<forall>m\<in>set ?ms. \<exists>field. subscript m ''group_id'' = Inr field"
    by simp
  have run: "get_group_user_id ''g1'' ''u2'' ?s
      = (fst (get_group_user_id ''g1'' ''u2'' ?s), snd (get_group_user_id ''g1'' ''u2'' ?s))"
    by simp
  from update_user_to_group_admin_bodies[OF run, of users_response "[committed, committed]"
         "envelope 200 (JList [ada, bob, bob_again])" "[ada, bob, bob_again]" bob ?ms]
       p t b ids u g gids
  have after: "pending (world (snd (get_group_user_id ''g1'' ''u2'' ?s))) = [committed, committed]"
    and found: "fst (get_group_user_id ''g1'' ''u2'' ?s) = Inr (JStr ''m7'')"
    by simp_all
  have ran: "get_group_user_id ''g1'' ''u2'' ?s
      = (Inr (JStr ''m7''), snd (get_group_user_id ''g1'' ''u2'' ?s))"
    using found by (simp add: prod_eq_iff)
  from update_user_to_group_admin_bodies[OF ran] found after u g show ?thesis
    by (simp add: example_state_def example_self_def committed_def ok_response_def)
qed
lemma get_user_public_key_Inr:
  assumes "get_user_public_key user_id s = (Inr user_key, s1)"
  shows "\<exists>r rs. pending (world s) = r # rs \<and> public_key_of r = Inr user_key
           \<and> s1 = s\<lparr>world := (world s)\<lparr>pending := rs, sent := sent (world s) @
                 [\<lparr>req_method = GET,
                   req_url = base_url (self s) @ ''/users/'' @ user_id @ ''.json'',
                   req_json = None\<rparr>],
                 jar := store_cookies (world s) (jar (world s)) r\<rparr>\<rparr>"
  using assms unfolding get_user_public_key_def
  by (auto simp: io_bind_Inr io_lift_Inr send_Inr public_key_of_def)

text \<open>
  One turn of the loop that returns has made three engine calls and built the entry the
  specification describes; it has sent nothing and changed nothing of the client.
\<close>

lemma reencrypt_secret_Inr:
  assumes "reencrypt_secret E user_id user_key secret s = (Inr entry, s1)"
  shows "reencrypted_entry E (config (self s)) user_id user_key (gpg_calls (world s)) secret
           = Some entry
       \<and> s1 = s\<lparr>world := (world s)\<lparr>gpg_calls := gpg_calls (world s) + 3\<rparr>\<rparr>"
  using assms unfolding reencrypt_secret_def encrypt_def decrypt_def
  by (auto simp: io_bind_Inr io_lift_Inr io_return_Inr gpg_call_def reencrypted_entry_def
      split: sum.splits)

lemma reencrypt_loop_Inr:
  assumes "reencrypt_loop E user_id user_key xs acc s = (Inr out, s1)"
  shows "\<exists>entries. out = acc @ entries \<and> length entries = length xs
           \<and> (\<forall>i<length xs. reencrypted_entry E (config (self s)) user_id user_key
                  (gpg_calls (world s) + 3 * i) (xs ! i) = Some (entries ! i))
           \<and> s1 = s\<lparr>world := (world s)\<lparr>gpg_calls := gpg_calls (world s) + 3 * length xs\<rparr>\<rparr>"
  using assms
proof (induction xs arbitrary: acc s)
  case Nil
  then show ?case by simp
next
  case (Cons x xs)
  from Cons.prems obtain entry s2 where
    one: "reencrypt_secret E user_id user_key x s = (Inr entry, s2)" and
    more: "reencrypt_loop E user_id user_key xs (acc @ [entry]) s2 = (Inr out, s1)"
    by (auto split: prod.splits sum.splits)
  from reencrypt_secret_Inr[OF one] have
    e: "reencrypted_entry E (config (self s)) user_id user_key (gpg_calls (world s)) x
          = Some entry"
    and s2: "s2 = s\<lparr>world := (world s)\<lparr>gpg_calls := gpg_calls (world s) + 3\<rparr>\<rparr>"
    by auto
  from Cons.IH[OF more] obtain entries where
    out: "out = (acc @ [entry]) @ entries" and len: "length entries = length xs" and
    each: "\<forall>i<length xs. reencrypted_entry E (config (self s2)) user_id user_key
               (gpg_calls (world s2) + 3 * i) (xs ! i) = Some (entries ! i)" and
    s1: "s1 = s2\<lparr>world := (world s2)\<lparr>gpg_calls := gpg_calls (world s2) + 3 * length xs\<rparr>\<rparr>"
    by blast
  have "\<forall>i<length (x # xs). reencrypted_entry E (config (self s)) user_id user_key
          (gpg_calls (world s) + 3 * i) ((x # xs) ! i) = Some ((entry # entries) ! i)"
  proof (intro allI impI)
    fix i
    assume i: "i < length (x # xs)"
    show "reencrypted_entry E (config (self s)) user_id user_key
          (gpg_calls (world s) + 3 * i) ((x # xs) ! i) = Some ((entry # entries) ! i)"
    proof (cases i)
      case 0
      then show ?thesis using e by simp
    next
      case (Suc j)
      with i have "j < length xs" by simp
      with each have "reencrypted_entry E (config (self s2)) user_id user_key
               (gpg_calls (world s2) + 3 * j) (xs ! j) = Some (entries ! j)"
        by blast
      then show ?thesis using Suc s2 by (simp add: add.assoc)
    qed
  qed
  then show ?case using out len s1 s2
    by (intro exI[of _ "entry # entries"]) simp
qed

text \<open>
  The converse: where the specification's entry exists for a secret, the turn of the loop
  returns it, and where it exists for every secret the loop returns the list of them.
\<close>

lemma reencrypt_secret_Some:
  assumes "reencrypted_entry E (config (self s)) user_id user_key (gpg_calls (world s)) secret
             = Some entry"
  shows "reencrypt_secret E user_id user_key secret s
           = (Inr entry, s\<lparr>world := (world s)\<lparr>gpg_calls := gpg_calls (world s) + 3\<rparr>\<rparr>)"
  using assms unfolding reencrypt_secret_def encrypt_def decrypt_def reencrypted_entry_def
  by (auto simp: io_defs split: sum.splits prod.splits)

lemma reencrypt_loop_Some:
  assumes "length entries = length xs"
    and "\<forall>i<length xs. reencrypted_entry E (config (self s)) user_id user_key
           (gpg_calls (world s) + 3 * i) (xs ! i) = Some (entries ! i)"
  shows "reencrypt_loop E user_id user_key xs acc s
           = (Inr (acc @ entries),
              s\<lparr>world := (world s)\<lparr>gpg_calls := gpg_calls (world s) + 3 * length xs\<rparr>\<rparr>)"
  using assms
proof (induction xs arbitrary: entries acc s)
  case Nil
  then show ?case by simp
next
  case (Cons x xs)
  from Cons.prems(1) obtain entry rest where entries: "entries = entry # rest"
    and len: "length rest = length xs"
    by (cases entries) auto
  let ?s2 = "s\<lparr>world := (world s)\<lparr>gpg_calls := gpg_calls (world s) + 3\<rparr>\<rparr>"
  from Cons.prems(2) entries
  have "reencrypted_entry E (config (self s)) user_id user_key (gpg_calls (world s)) x
          = Some entry"
    by force
  then have one: "reencrypt_secret E user_id user_key x s = (Inr entry, ?s2)"
    by (rule reencrypt_secret_Some)
  have "\<forall>i<length xs. reencrypted_entry E (config (self ?s2)) user_id user_key
          (gpg_calls (world ?s2) + 3 * i) (xs ! i) = Some (rest ! i)"
  proof (intro allI impI)
    fix i
    assume "i < length xs"
    then have "Suc i < length (x # xs)" by simp
    with Cons.prems(2) have "reencrypted_entry E (config (self s)) user_id user_key
        (gpg_calls (world s) + 3 * Suc i) ((x # xs) ! Suc i) = Some (entries ! Suc i)"
      by blast
    then show "reencrypted_entry E (config (self ?s2)) user_id user_key
        (gpg_calls (world ?s2) + 3 * i) (xs ! i) = Some (rest ! i)"
      using entries by (simp add: add.assoc)
  qed
  from Cons.IH[OF len this, of "acc @ [entry]"] one entries show ?case
    by (simp add: add.assoc)
qed

text \<open>
  So a call whose dry run answers 200 does commit whenever the key and the secrets can be
  read and the engine does its work: it returns the response to the commit PUT.
\<close>

lemma put_user_on_group_commits:
  assumes "pending (world s) = dry # user_response # commit_response # rest"
    and "status_code dry = 200"
    and "public_key_of user_response = Inr user_key"
    and "dry_run_secrets dry = Inr xs"
    and "length entries = length xs"
    and "\<forall>i<length xs. reencrypted_entry E (config (self s)) user_id user_key
           (gpg_calls (world s) + 3 * i) (xs ! i) = Some (entries ! i)"
  shows "fst (put_user_on_group E group_id user_id admin s) = Inr commit_response
       \<and> req_json (last (sent (world (snd (put_user_on_group E group_id user_id admin s))))) =
           Some (JObj [(''id'', JStr group_id),
                       (''groups_users'',
                        JList [JObj [(''user_id'', JStr user_id), (''is_admin'', JBool admin)]]),
                       (''secrets'', JList entries)])"
proof -
  let ?s1 = "s\<lparr>world := (world s)\<lparr>pending := commit_response # rest,
      sent := sent (world s) @
        [\<lparr>req_method = PUT,
          req_url = base_url (self s) @ ''/groups/'' @ group_id @ ''/dry-run.json'',
          req_json = Some (JObj [(''id'', JStr group_id),
                                 (''groups_users'',
                                  JList [JObj [(''user_id'', JStr user_id),
                                               (''is_admin'', JBool admin)]])])\<rparr>,
         \<lparr>req_method = GET,
          req_url = base_url (self s) @ ''/users/'' @ user_id @ ''.json'',
          req_json = None\<rparr>],
      jar := store_cookies (world s) (store_cookies (world s) (jar (world s)) dry)
               user_response\<rparr>\<rparr>"
  have each: "\<forall>i<length xs. reencrypted_entry E (config (self ?s1)) user_id user_key
           (gpg_calls (world ?s1) + 3 * i) (xs ! i) = Some (entries ! i)"
    using assms(6) by simp
  have loop: "reencrypt_loop E user_id user_key xs [] ?s1
      = (Inr entries,
         ?s1\<lparr>world := (world ?s1)\<lparr>gpg_calls := gpg_calls (world ?s1) + 3 * length xs\<rparr>\<rparr>)"
    using reencrypt_loop_Some[OF assms(5) each, of "[]"] by simp
  from assms(3) obtain uj ub where
    u: "resp_text user_response = Json uj" "subscript uj ''body'' = Inr ub"
      "subscript ub ''gpgkey'' = Inr user_key"
    by (cases "resp_text user_response") (auto simp: public_key_of_def split: sum.splits)
  from assms(4) obtain dj db dd ds where
    d: "resp_text dry = Json dj" "subscript dj ''body'' = Inr db"
      "subscript db ''dry-run'' = Inr dd" "subscript dd ''Secrets'' = Inr ds"
      "iterate ds = Inr xs"
    by (cases "resp_text dry") (auto simp: dry_run_secrets_def split: sum.splits)
  show ?thesis
    using assms(1,2) u d loop
    by (simp add: put_user_on_group_def get_user_public_key_def Let_def io_defs)
qed

text \<open>
  C2. For every dry-run response whose status is not 200, \<open>put_user_on_group\<close> returns
  that response. It has sent the dry-run PUT and nothing else (no request for the user's
  key, no commit PUT), has made no call to the PGP engine (no secret is decrypted or
  encrypted, so no list is built), has consumed no other response, and has printed the
  headers and the text of the response.
\<close>

theorem put_user_on_group_abort:
  assumes "pending (world s) = r # rs" and "status_code r \<noteq> 200"
  shows "fst (put_user_on_group E group_id user_id admin s) = Inr r
       \<and> sent (world (snd (put_user_on_group E group_id user_id admin s))) =
           sent (world s) @
             [\<lparr>req_method = PUT,
               req_url = base_url (self s) @ ''/groups/'' @ group_id @ ''/dry-run.json'',
               req_json = Some (JObj [(''id'', JStr group_id),
                                      (''groups_users'',
                                       JList [JObj [(''user_id'', JStr user_id),
                                                    (''is_admin'', JBool admin)]])])\<rparr>]
       \<and> gpg_calls (world (snd (put_user_on_group E group_id user_id admin s)))
           = gpg_calls (world s)
       \<and> pending (world (snd (put_user_on_group E group_id user_id admin s))) = rs
       \<and> console (world (snd (put_user_on_group E group_id user_id admin s))) =
           console (world s) @
             [PrintHeaders (headers r), PrintBlank, PrintText (resp_text r), PrintBlank]"
  using assms by (simp add: put_user_on_group_def Let_def io_defs)

text \<open>The dry run answers 403: the two responses that follow are never asked for.\<close>

theorem put_user_on_group_abort_witness:
  "fst (put_user_on_group example_env ''g1'' ''u2'' False
          (example_state example_self [forbidden, bob_key_response, committed]))
     = Inr forbidden
   \<and> sent (world (snd (put_user_on_group example_env ''g1'' ''u2'' False
          (example_state example_self [forbidden, bob_key_response, committed]))))
     = [\<lparr>req_method = PUT, req_url = ''https://pb.test/groups/g1/dry-run.json'',
         req_json = Some (JObj [(''id'', JStr ''g1''),
                                (''groups_users'',
                                 JList [JObj [(''user_id'', JStr ''u2''),
                                              (''is_admin'', JBool False)]])])\<rparr>]
   \<and> gpg_calls (world (snd (put_user_on_group example_env ''g1'' ''u2'' False
          (example_state example_self [forbidden, bob_key_response, committed]))))
     = 0
   \<and> pending (world (snd (put_user_on_group example_env ''g1'' ''u2'' False
          (example_state example_self [forbidden, bob_key_response, committed]))))
     = [bob_key_response, committed]"
proof -
  have p: "pending (world (example_state example_self [forbidden, bob_key_response, committed]))
      = forbidden # [bob_key_response, committed]"
    by (simp add: example_state_def)
  have st: "status_code forbidden \<noteq> 200"
    by (simp add: forbidden_def)
  from put_user_on_group_abort[OF p st, of example_env "''g1''" "''u2''" False]
  show ?thesis
    by (simp add: example_state_def example_self_def)
qed

text \<open>
  C3. Let the dry run answer with status 200 and let \<open>put_user_on_group\<close> return. Then
  the call has sent three requests: the dry-run PUT, the GET of
  \<open>/users/{user_id}.json\<close>, whose response carries the target user's key, and the commit
  PUT, whose response is the one returned. The \<open>secrets\<close> list of the commit body has
  one entry for each secret of the dry run, in the same order, and the entry at position
  \<open>i\<close> is the one the specification describes for the secret at position \<open>i\<close>: its
  resource id, the target user, and the secret decrypted with the client's key and
  encrypted again to the key just fetched. Each secret takes three calls of the engine,
  so the calls for the secret at position \<open>i\<close> start at number \<open>3 * i\<close> after those
  made before.
\<close>

theorem put_user_on_group_secrets:
  assumes "put_user_on_group E group_id user_id admin s = (Inr response, s')"
    and "pending (world s) = dry # rest"
    and "status_code dry = 200"
  shows "\<exists>user_response rest' user_key xs entries.
           pending (world s) = dry # user_response # response # rest'
         \<and> public_key_of user_response = Inr user_key
         \<and> dry_run_secrets dry = Inr xs
         \<and> sent (world s') = sent (world s) @
              [\<lparr>req_method = PUT,
                req_url = base_url (self s) @ ''/groups/'' @ group_id @ ''/dry-run.json'',
                req_json = Some (JObj [(''id'', JStr group_id),
                                       (''groups_users'',
                                        JList [JObj [(''user_id'', JStr user_id),
                                                     (''is_admin'', JBool admin)]])])\<rparr>,
               \<lparr>req_method = GET,
                req_url = base_url (self s) @ ''/users/'' @ user_id @ ''.json'',
                req_json = None\<rparr>,
               \<lparr>req_method = PUT,
                req_url = base_url (self s) @ ''/groups/'' @ group_id @ ''.json'',
                req_json = Some (JObj [(''id'', JStr group_id),
                                       (''groups_users'',
                                        JList [JObj [(''user_id'', JStr user_id),
                                                     (''is_admin'', JBool admin)]]),
                                       (''secrets'', JList entries)])\<rparr>]
         \<and> length entries = length xs
         \<and> (\<forall>i<length xs.
               reencrypted_entry E (config (self s)) user_id user_key
                 (gpg_calls (world s) + 3 * i) (xs ! i) = Some (entries ! i))"
proof -
  let ?s0 = "s\<lparr>world := (world s)\<lparr>pending := rest, sent := sent (world s) @
      [\<lparr>req_method = PUT,
        req_url = base_url (self s) @ ''/groups/'' @ group_id @ ''/dry-run.json'',
        req_json = Some (JObj [(''id'', JStr group_id),
                               (''groups_users'',
                                JList [JObj [(''user_id'', JStr user_id),
                                             (''is_admin'', JBool admin)]])])\<rparr>],
      jar := store_cookies (world s) (jar (world s)) dry\<rparr>\<rparr>"
  from assms obtain user_key s1 xs entries s2 where
    key: "get_user_public_key user_id ?s0 = (Inr user_key, s1)" and
    secrets: "dry_run_secrets dry = Inr xs" and
    loop: "reencrypt_loop E user_id user_key xs [] s1 = (Inr entries, s2)" and
    commit: "send \<lparr>req_method = PUT,
                   req_url = base_url (self s2) @ ''/groups/'' @ group_id @ ''.json'',
                   req_json = Some (JObj [(''id'', JStr group_id),
                                          (''groups_users'',
                                           JList [JObj [(''user_id'', JStr user_id),
                                                        (''is_admin'', JBool admin)]]),
                                          (''secrets'', JList entries)])\<rparr> s2
             = (Inr response, s')"
    unfolding put_user_on_group_def Let_def dry_run_secrets_def
    by (auto simp: io_bind_Inr io_lift_Inr send_Inr split: sum.splits)
  from get_user_public_key_Inr[OF key] obtain ur rs where
    p: "rest = ur # rs" and pk: "public_key_of ur = Inr user_key" and
    s1: "s1 = ?s0\<lparr>world := (world ?s0)\<lparr>pending := rs, sent := sent (world ?s0) @
                 [\<lparr>req_method = GET,
                   req_url = base_url (self ?s0) @ ''/users/'' @ user_id @ ''.json'',
                   req_json = None\<rparr>],
                 jar := store_cookies (world ?s0) (jar (world ?s0)) ur\<rparr>\<rparr>"
    by auto
  from reencrypt_loop_Inr[OF loop] have
    len: "length entries = length xs" and
    each: "\<forall>i<length xs. reencrypted_entry E (config (self s1)) user_id user_key
                  (gpg_calls (world s1) + 3 * i) (xs ! i) = Some (entries ! i)" and
    s2: "s2 = s1\<lparr>world := (world s1)\<lparr>gpg_calls := gpg_calls (world s1) + 3 * length xs\<rparr>\<rparr>"
    by auto
  from commit obtain rs' where
    c: "pending (world s2) = response # rs'" and
    s': "s' = s2\<lparr>world := (world s2)\<lparr>pending := rs', sent := sent (world s2) @
            [\<lparr>req_method = PUT,
              req_url = base_url (self s2) @ ''/groups/'' @ group_id @ ''.json'',
              req_json = Some (JObj [(''id'', JStr group_id),
                                     (''groups_users'',
                                      JList [JObj [(''user_id'', JStr user_id),
                                                   (''is_admin'', JBool admin)]]),
                                     (''secrets'', JList entries)])\<rparr>],
            jar := store_cookies (world s2) (jar (world s2)) response\<rparr>\<rparr>"
    by (auto simp: send_Inr)
  have "pending (world s) = dry # ur # response # rs'"
    using assms(2) p c s1 s2 by simp
  moreover have "\<forall>i<length xs. reencrypted_entry E (config (self s)) user_id user_key
                  (gpg_calls (world s) + 3 * i) (xs ! i) = Some (entries ! i)"
    using each s1 by simp
  ultimately show ?thesis
    using pk secrets len s' s2 s1
    by (intro exI[of _ ur] exI[of _ rs'] exI[of _ user_key] exI[of _ xs] exI[of _ entries])
       simp
qed

text \<open>
  The dry run lists two secrets the client can read; the second user's key has the
  fingerprint \<open>B0B\<close>. The commit body carries the two passwords encrypted to that key,
  in the order of the dry run.
\<close>

theorem put_user_on_group_secrets_witness:
  "fst (put_user_on_group example_env ''g1'' ''u2'' False
          (example_state example_self [dry_run_response, bob_key_response, committed]))
     = Inr committed
   \<and> status_code dry_run_response = 200
   \<and> sent (world (snd (put_user_on_group example_env ''g1'' ''u2'' False
          (example_state example_self [dry_run_response, bob_key_response, committed]))))
     = [\<lparr>req_method = PUT, req_url = ''https://pb.test/groups/g1/dry-run.json'',
         req_json = Some (JObj [(''id'', JStr ''g1''),
                                (''groups_users'',
                                 JList [JObj [(''user_id'', JStr ''u2''),
                                              (''is_admin'', JBool False)]])])\<rparr>,
        \<lparr>req_method = GET, req_url = ''https://pb.test/users/u2.json'', req_json = None\<rparr>,
        \<lparr>req_method = PUT, req_url = ''https://pb.test/groups/g1.json'',
         req_json = Some (JObj [(''id'', JStr ''g1''),
                                (''groups_users'',
                                 JList [JObj [(''user_id'', JStr ''u2''),
                                              (''is_admin'', JBool False)]]),
                                (''secrets'',
                                 JList [JObj [(''resource_id'', JStr ''r1''),
                                              (''user_id'', JStr ''u2''),
                                              (''data'', JStr ''B0B|pw-one'')],
                                        JObj [(''resource_id'', JStr ''r2''),
                                              (''user_id'', JStr ''u2''),
                                              (''data'', JStr ''B0B|pw-two'')]])])\<rparr>]"
proof -
  let ?s = "example_state example_self [dry_run_response, bob_key_response, committed]"
  let ?run = "put_user_on_group example_env ''g1'' ''u2'' False ?s"
  have ok: "fst ?run = Inr committed"
    by (simp add: put_user_on_group_def get_user_public_key_def reencrypt_secret_def
        encrypt_def decrypt_def io_defs example_env_def example_self_def example_state_def
        envelope_def ok_response_def toy_decrypt_def toy_encrypt_def
        dry_run_response_def bob_key_response_def committed_def Let_def)
  have sent: "sent (world (snd ?run))
     = [\<lparr>req_method = PUT, req_url = ''https://pb.test/groups/g1/dry-run.json'',
         req_json = Some (JObj [(''id'', JStr ''g1''),
                                (''groups_users'',
                                 JList [JObj [(''user_id'', JStr ''u2''),
                                              (''is_admin'', JBool False)]])])\<rparr>,
        \<lparr>req_method = GET, req_url = ''https://pb.test/users/u2.json'', req_json = None\<rparr>,
        \<lparr>req_method = PUT, req_url = ''https://pb.test/groups/g1.json'',
         req_json = Some (JObj [(''id'', JStr ''g1''),
                                (''groups_users'',
                                 JList [JObj [(''user_id'', JStr ''u2''),
                                              (''is_admin'', JBool False)]]),
                                (''secrets'',
                                 JList [JObj [(''resource_id'', JStr ''r1''),
                                              (''user_id'', JStr ''u2''),
                                              (''data'', JStr ''B0B|pw-one'')],
                                        JObj [(''resource_id'', JStr ''r2''),
                                              (''user_id'', JStr ''u2''),
                                              (''data'', JStr ''B0B|pw-two'')]])])\<rparr>]"
    by (simp add: put_user_on_group_def get_user_public_key_def reencrypt_secret_def
        encrypt_def decrypt_def io_defs example_env_def example_self_def example_state_def
        envelope_def ok_response_def toy_decrypt_def toy_encrypt_def
        dry_run_response_def bob_key_response_def committed_def Let_def)
  have run: "?run = (Inr committed, snd ?run)"
    using ok by (simp add: prod_eq_iff)
  have p: "pending (world ?s) = dry_run_response # [bob_key_response, committed]"
    by (simp add: example_state_def)
  have st: "status_code dry_run_response = 200"
    by (simp add: dry_run_response_def ok_response_def)
  from put_user_on_group_secrets[OF run p st] ok st sent show ?thesis
    by simp
qed

text \<open>
  C10. For every group name, \<open>create_group\<close> sends one POST to the groups URL whose body
  holds the name and a \<open>groups_users\<close> list of exactly one entry, the client's own
  \<open>USER_ID\<close> with \<open>is_admin\<close> true, and it returns the response of the server as it is.
  Nothing of the client object changes.
\<close>

theorem create_group_body:
  "sent (world (snd (create_group group_name s))) =
     sent (world s) @
       [\<lparr>req_method = POST, req_url = groups_url (self s),
         req_json = Some (JObj [(''name'', group_name),
                                (''groups_users'',
                                 JList [JObj [(''user_id'', USER_ID (self s)),
                                              (''is_admin'', JBool True)]])])\<rparr>]
   \<and> self (snd (create_group group_name s)) = self s
   \<and> (\<forall>r rs. pending (world s) = r # rs \<longrightarrow> fst (create_group group_name s) = Inr r)"
  by (simp add: create_group_def send_def Let_def split: list.splits)

text \<open>The client \<open>u-me\<close> creates the group \<open>devs\<close>.\<close>

theorem create_group_body_witness:
  "pending (world (example_state (example_self\<lparr>USER_ID := JStr ''u-me''\<rparr>) [committed]))
     = [committed]
   \<and> fst (create_group (JStr ''devs'')
            (example_state (example_self\<lparr>USER_ID := JStr ''u-me''\<rparr>) [committed]))
     = Inr committed
   \<and> sent (world (snd (create_group (JStr ''devs'')
            (example_state (example_self\<lparr>USER_ID := JStr ''u-me''\<rparr>) [committed]))))
     = [\<lparr>req_method = POST, req_url = ''https://pb.test/groups.json'',
         req_json = Some (JObj [(''name'', JStr ''devs''),
                                (''groups_users'',
                                 JList [JObj [(''user_id'', JStr ''u-me''),
                                              (''is_admin'', JBool True)]])])\<rparr>]"
  using create_group_body [of "JStr ''devs''"
      "example_state (example_self\<lparr>USER_ID := JStr ''u-me''\<rparr>) [committed]"]
  by (simp add: example_state_def example_self_def)

end
